theory Spec2Isabelle
  imports Main "HOL-Library.Word"
begin

unbundle bit_operations_syntax

section \<open>Data model (src/types/jobs.ts, processors)\<close>

text \<open>
  Unix timestamps and nonces are JavaScript numbers that the Zod schemas require to be
  integers; they are modelled as \<open>int\<close>. Strings are byte lists (UTF-8). An optional
  field (\<open>deliveryBy?: number\<close>) is an \<open>option\<close>; the test
  \<open>typeof x === "number"\<close> is the test for \<open>Some\<close>.
\<close>

datatype DeadlineKind = delivery | dispute

datatype ReminderAudience = buyer | seller | both

datatype ReminderReason = deadline_upcoming | dispute_window_closing

datatype EscalationReason = deadline_expired | no_ack | no_delivery

datatype EscalationSuggestion = RELEASE | REFUND | REVIEW

datatype DealState = INIT | FUNDED | DELIVERED | DISPUTED | RESOLVED | RELEASED | REFUNDED

record DeadlineJob =
  dealId :: string
  deadlineAt :: int
  kind :: DeadlineKind
  nonce :: int

record ReminderJob =
  dealId :: string
  notifyAt :: int
  for' :: ReminderAudience
  reason :: ReminderReason

record EscalationJob =
  dealId :: string
  reason :: EscalationReason
  suggested :: EscalationSuggestion

record DealSnapshot =
  snapId :: string
  state :: DealState
  deliveryBy :: "int option"
  disputeUntil :: "int option"

text \<open>The string values of the enums, as they appear in template literals.\<close>

fun DeadlineKind_str :: "DeadlineKind \<Rightarrow> string" where
  "DeadlineKind_str delivery = ''delivery''"
| "DeadlineKind_str dispute = ''dispute''"

fun ReminderAudience_str :: "ReminderAudience \<Rightarrow> string" where
  "ReminderAudience_str buyer = ''buyer''"
| "ReminderAudience_str seller = ''seller''"
| "ReminderAudience_str both = ''both''"

fun ReminderReason_str :: "ReminderReason \<Rightarrow> string" where
  "ReminderReason_str deadline_upcoming = ''deadline-upcoming''"
| "ReminderReason_str dispute_window_closing = ''dispute-window-closing''"

fun EscalationReason_str :: "EscalationReason \<Rightarrow> string" where
  "EscalationReason_str deadline_expired = ''deadline-expired''"
| "EscalationReason_str no_ack = ''no-ack''"
| "EscalationReason_str no_delivery = ''no-delivery''"

fun EscalationSuggestion_str :: "EscalationSuggestion \<Rightarrow> string" where
  "EscalationSuggestion_str RELEASE = ''RELEASE''"
| "EscalationSuggestion_str REFUND = ''REFUND''"
| "EscalationSuggestion_str REVIEW = ''REVIEW''"

subsection \<open>Number to string\<close>

text \<open>
  A template literal renders an integer number in decimal, with a leading minus sign when
  negative (ECMAScript Number::toString, for integers below \<open>10^21\<close>).
\<close>

definition digitChar :: "nat \<Rightarrow> char" where
  "digitChar d = char_of (48 + d)"

fun natToString :: "nat \<Rightarrow> string" where
  "natToString n = (if n < 10 then [digitChar n] else natToString (n div 10) @ [digitChar (n mod 10)])"

declare natToString.simps [simp del]

definition numberToString :: "int \<Rightarrow> string" where
  "numberToString i = (if i < 0 then CHR ''-'' # natToString (nat (- i)) else natToString (nat i))"

subsection \<open>Job identities\<close>

definition jobIdForDeadline :: "DeadlineJob \<Rightarrow> string" where
  "jobIdForDeadline j =
     ''deadline:'' @ DeadlineJob.dealId j @ '':'' @ numberToString (deadlineAt j) @ '':''
       @ DeadlineKind_str (kind j) @ '':'' @ numberToString (nonce j)"

definition jobIdForReminder :: "ReminderJob \<Rightarrow> string" where
  "jobIdForReminder j =
     ''reminder:'' @ ReminderJob.dealId j @ '':'' @ numberToString (notifyAt j) @ '':''
       @ ReminderAudience_str (for' j) @ '':'' @ ReminderReason_str (ReminderJob.reason j)"

definition jobIdForEscalation :: "EscalationJob \<Rightarrow> string" where
  "jobIdForEscalation j =
     ''escalation:'' @ EscalationJob.dealId j @ '':'' @ EscalationReason_str (EscalationJob.reason j)
       @ '':'' @ EscalationSuggestion_str (suggested j)"

subsection \<open>Schema validation\<close>

text \<open>
  The payload types already exclude wrong field types and enum violations; what is left of
  the Zod schemas is \<open>min(1)\<close> on the deal id, \<open>positive\<close> on timestamps and
  \<open>nonnegative\<close> on the nonce. \<open>parse\<close> throws a ZodError when the check fails.
\<close>

datatype Error = ZodError | ApiError | QueueConfigError

definition DeadlineJobSchema :: "DeadlineJob \<Rightarrow> bool" where
  "DeadlineJobSchema j \<longleftrightarrow> DeadlineJob.dealId j \<noteq> [] \<and> 0 < deadlineAt j \<and> 0 \<le> nonce j"

definition ReminderJobSchema :: "ReminderJob \<Rightarrow> bool" where
  "ReminderJobSchema j \<longleftrightarrow> ReminderJob.dealId j \<noteq> [] \<and> 0 < notifyAt j"

definition EscalationJobSchema :: "EscalationJob \<Rightarrow> bool" where
  "EscalationJobSchema j \<longleftrightarrow> EscalationJob.dealId j \<noteq> []"

definition assertDeadlineJob :: "DeadlineJob \<Rightarrow> Error + DeadlineJob" where
  "assertDeadlineJob j = (if DeadlineJobSchema j then Inr j else Inl ZodError)"

definition assertReminderJob :: "ReminderJob \<Rightarrow> Error + ReminderJob" where
  "assertReminderJob j = (if ReminderJobSchema j then Inr j else Inl ZodError)"

definition assertEscalationJob :: "EscalationJob \<Rightarrow> Error + EscalationJob" where
  "assertEscalationJob j = (if EscalationJobSchema j then Inr j else Inl ZodError)"

subsection \<open>Webhook events\<close>

datatype WebhookEffect =
  deal_funded string
| deal_delivered string
| deal_disputed string
| deal_released string
| deal_refunded string

record WebhookEvent =
  evId :: string
  evSig :: string
  evSlot :: int
  evWhen :: int
  effect :: WebhookEffect

text \<open>
  A header value is \<open>unknown\<close> in the source: a string, \<open>null\<close> or \<open>undefined\<close>, or
  some other value, which is kept as the text \<open>String(v)\<close> gives for it.
\<close>

datatype HeaderValue = HString string | HNullish | HOther string

type_synonym Headers = "(string \<times> HeaderValue) list"

record WebhookIdParams =
  webhookId :: "string option"
  txSignature :: string
  index :: "int option"

section \<open>Ports and effects\<close>

text \<open>
  The processors reach the outside world through ports and the process environment. What
  they read is a field of the record \<open>World\<close>: a port call that rejects is \<open>None\<close>,
  an unset environment variable is \<open>None\<close>, \<open>Date.now()\<close> is the field \<open>nowMs\<close>
  (one clock value for the whole call). What they write (a queue's \<open>add\<close>, the calls of
  the notification port) is recorded, in order, as a list of \<open>Effect\<close>s; these calls are
  taken to resolve. \<open>normalizeHeliusWebhook\<close> (JSON.parse and the mapping of provider
  entries to events, whose source is cut off in the repository) is a field too: \<open>None\<close>
  when it throws, which it does on malformed JSON only.
\<close>

record Prepared =
  approvalUrl :: "string option"
  blinkUrl :: "string option"

record World =
  getDealSnapshot :: "string \<Rightarrow> DealSnapshot option"
  prepareFinalize :: "string \<Rightarrow> EscalationSuggestion \<Rightarrow> Prepared option"
  allowRelease :: bool
  allowRefund :: bool
  nowMs :: int
  redisUrl :: "string option"
  heliusWebhookSecret :: "string option"
  normalizeHeliusWebhook :: "string \<Rightarrow> Headers \<Rightarrow> WebhookEvent list option"

datatype JobData =
  DeadlineData DeadlineJob
| ReminderData ReminderJob
| EscalationData EscalationJob
| EscrowDeadlineData string int
| EscrowReminderData string int int
| EscrowEscalationData string int int

datatype ReviewerContext =
  CtxKind DeadlineKind
| CtxPrepared EscalationSuggestion "string option" "string option"
| CtxSuggested EscalationSuggestion

text \<open>
  \<open>QueueAdd q name data jobId delay\<close> is \<open>q.add(name, data, {jobId, delay})\<close>;
  \<open>NotifyReviewer dealId reason when context\<close>, \<open>NotifyParties dealId event when suggested\<close>
  and \<open>SendReminder dealId when audience reason deliveryBy disputeUntil\<close> are the calls of
  the notification port.
\<close>

datatype Effect =
  QueueAdd string string JobData string "int option"
| NotifyReviewer string EscalationReason int ReviewerContext
| NotifyParties string string int EscalationSuggestion
| SendReminder string int ReminderAudience ReminderReason "int option" "int option"

definition nowSecOf :: "World \<Rightarrow> int" where
  "nowSecOf p = nowMs p div 1000"

subsection \<open>Policy gate (src/ports/ChainPort.ts)\<close>

fun allowsAutoFinalize :: "World \<Rightarrow> EscalationSuggestion \<Rightarrow> bool" where
  "allowsAutoFinalize p RELEASE = allowRelease p"
| "allowsAutoFinalize p REFUND = allowRefund p"
| "allowsAutoFinalize p REVIEW = False"

section \<open>Deadline processor (src/processors/handleDeadline.ts)\<close>

datatype Decision = Noop | Escalate EscalationReason EscalationSuggestion

definition decide :: "DeadlineKind \<Rightarrow> DealSnapshot \<Rightarrow> int \<Rightarrow> Decision" where
  "decide k snap nowSec =
     (case k of
        delivery \<Rightarrow>
          if state snap = DELIVERED \<or> state snap = RELEASED \<or> state snap = REFUNDED
             \<or> state snap = RESOLVED
          then Noop
          else
            let overdue = (case deliveryBy snap of None \<Rightarrow> False | Some d \<Rightarrow> d \<le> nowSec)
            in if overdue then Escalate no_delivery REVIEW else Noop
      | dispute \<Rightarrow>
          if state snap = RESOLVED \<or> state snap = RELEASED \<or> state snap = REFUNDED
          then Noop
          else
            let windowEnded = (case disputeUntil snap of None \<Rightarrow> False | Some d \<Rightarrow> d \<le> nowSec)
            in if \<not> windowEnded then Noop
               else if state snap = FUNDED \<or> state snap = DELIVERED
               then Escalate deadline_expired RELEASE
               else Escalate deadline_expired REVIEW)"

datatype DeadlineResult =
  DeadlineNoop string DeadlineKind
| DeadlineEscalate string EscalationReason EscalationSuggestion

definition Q_ESCALATION :: string where
  "Q_ESCALATION = ''escalation''"

definition handleDeadline :: "World \<Rightarrow> DeadlineJob \<Rightarrow> Error + (DeadlineResult \<times> Effect list)" where
  "handleDeadline p job =
     (case assertDeadlineJob job of
        Inl e \<Rightarrow> Inl e
      | Inr payload \<Rightarrow>
          (case getDealSnapshot p (DeadlineJob.dealId payload) of
             None \<Rightarrow> Inl ApiError
           | Some snap \<Rightarrow>
               let nowSec = nowSecOf p in
               (case decide (kind payload) snap nowSec of
                  Noop \<Rightarrow> Inr (DeadlineNoop (DeadlineJob.dealId payload) (kind payload), [])
                | Escalate r s0 \<Rightarrow>
                    let s = (if s0 \<noteq> REVIEW \<and> \<not> allowsAutoFinalize p s0 then REVIEW else s0);
                        esc = \<lparr>EscalationJob.dealId = DeadlineJob.dealId payload,
                               reason = r, suggested = s\<rparr>;
                        jobId = jobIdForEscalation esc
                    in Inr (DeadlineEscalate (DeadlineJob.dealId payload) r s,
                            QueueAdd Q_ESCALATION Q_ESCALATION (EscalationData esc) jobId None
                              # (if s = REVIEW
                                 then [NotifyReviewer (DeadlineJob.dealId payload) r nowSec
                                         (CtxKind (kind payload))]
                                 else [])))))"

subsection \<open>The decision table of the specification\<close>

definition elapsed :: "int option \<Rightarrow> int \<Rightarrow> bool" where
  "elapsed t now = (case t of None \<Rightarrow> False | Some d \<Rightarrow> now \<ge> d)"

definition decisionTable :: "DeadlineKind \<Rightarrow> DealSnapshot \<Rightarrow> int \<Rightarrow> Decision" where
  "decisionTable k snap now =
     (case k of
        delivery \<Rightarrow>
          if state snap \<in> {DELIVERED, RELEASED, REFUNDED, RESOLVED} then Noop
          else if elapsed (deliveryBy snap) now then Escalate no_delivery REVIEW
          else Noop
      | dispute \<Rightarrow>
          if state snap \<in> {RESOLVED, RELEASED, REFUNDED} then Noop
          else if \<not> elapsed (disputeUntil snap) now then Noop
          else if state snap \<in> {FUNDED, DELIVERED} then Escalate deadline_expired RELEASE
          else Escalate deadline_expired REVIEW)"

section \<open>SHA-256 and HMAC (the runtime's crypto module)\<close>

text \<open>
  \<open>createHash("sha256")\<close> and \<open>createHmac("sha256", key)\<close> are the runtime's; they are
  modelled by the algorithms of FIPS 180-4 and RFC 2104 on byte strings. Successive
  \<open>update\<close> calls hash the concatenation of their arguments, and \<open>digest("hex")\<close> is
  the lowercase hexadecimal text of the 32 bytes.
\<close>

type_synonym word32 = "32 word"

definition rotr :: "nat \<Rightarrow> word32 \<Rightarrow> word32" where
  "rotr n x = drop_bit n x OR push_bit (32 - n) x"

definition Ch :: "word32 \<Rightarrow> word32 \<Rightarrow> word32 \<Rightarrow> word32" where
  "Ch x y z = (x AND y) XOR (NOT x AND z)"

definition Maj :: "word32 \<Rightarrow> word32 \<Rightarrow> word32 \<Rightarrow> word32" where
  "Maj x y z = (x AND y) XOR (x AND z) XOR (y AND z)"

definition bigSigma0 :: "word32 \<Rightarrow> word32" where
  "bigSigma0 x = rotr 2 x XOR rotr 13 x XOR rotr 22 x"

definition bigSigma1 :: "word32 \<Rightarrow> word32" where
  "bigSigma1 x = rotr 6 x XOR rotr 11 x XOR rotr 25 x"

definition smallSigma0 :: "word32 \<Rightarrow> word32" where
  "smallSigma0 x = rotr 7 x XOR rotr 18 x XOR drop_bit 3 x"

definition smallSigma1 :: "word32 \<Rightarrow> word32" where
  "smallSigma1 x = rotr 17 x XOR rotr 19 x XOR drop_bit 10 x"

definition roundConstants :: "word32 list" where
  "roundConstants =
    [1116352408, 1899447441, 3049323471, 3921009573, 961987163, 1508970993, 2453635748,
     2870763221, 3624381080, 310598401, 607225278, 1426881987, 1925078388, 2162078206,
     2614888103, 3248222580, 3835390401, 4022224774, 264347078, 604807628, 770255983,
     1249150122, 1555081692, 1996064986, 2554220882, 2821834349, 2952996808, 3210313671,
     3336571891, 3584528711, 113926993, 338241895, 666307205, 773529912, 1294757372,
     1396182291, 1695183700, 1986661051, 2177026350, 2456956037, 2730485921, 2820302411,
     3259730800, 3345764771, 3516065817, 3600352804, 4094571909, 275423344, 430227734,
     506948616, 659060556, 883997877, 958139571, 1322822218, 1537002063, 1747873779,
     1955562222, 2024104815, 2227730452, 2361852424, 2428436474, 2756734187, 3204031479,
     3329325298]"

type_synonym hashState =
  "word32 \<times> word32 \<times> word32 \<times> word32 \<times> word32 \<times> word32 \<times> word32 \<times> word32"

definition initialHash :: hashState where
  "initialHash =
     (1779033703, 3144134277, 1013904242, 2773480762,
      1359893119, 2600822924, 528734635, 1541459225)"

definition byteOf :: "nat \<Rightarrow> char" where
  "byteOf n = char_of n"

definition lengthBytes :: "nat \<Rightarrow> string" where
  "lengthBytes n = map (\<lambda>i. byteOf (n div 256 ^ i)) [7, 6, 5, 4, 3, 2, 1, 0]"

definition sha256Pad :: "string \<Rightarrow> string" where
  "sha256Pad m =
     m @ [byteOf 128] @ replicate ((119 - length m mod 64) mod 64) (byteOf 0)
       @ lengthBytes (8 * length m)"

fun wordsOf :: "string \<Rightarrow> word32 list" where
  "wordsOf (a # b # c # d # rest) =
     (push_bit 24 (of_char a) OR push_bit 16 (of_char b) OR push_bit 8 (of_char c) OR of_char d)
       # wordsOf rest"
| "wordsOf _ = []"

fun blocksOf :: "string \<Rightarrow> string list" where
  "blocksOf bs = (if bs = [] then [] else take 64 bs # blocksOf (drop 64 bs))"

declare blocksOf.simps [simp del]

fun schedule :: "nat \<Rightarrow> word32 list \<Rightarrow> word32 list" where
  "schedule 0 w = w"
| "schedule (Suc n) w =
     (let t = length w
      in schedule n (w @ [smallSigma1 (w ! (t - 2)) + w ! (t - 7)
                           + smallSigma0 (w ! (t - 15)) + w ! (t - 16)]))"

fun sha256Round :: "hashState \<Rightarrow> word32 \<times> word32 \<Rightarrow> hashState" where
  "sha256Round (a, b, c, d, e, f, g, h) (k, w) =
     (let t1 = h + bigSigma1 e + Ch e f g + k + w;
          t2 = bigSigma0 a + Maj a b c
      in (t1 + t2, a, b, c, d + t1, e, f, g))"

fun addState :: "hashState \<Rightarrow> hashState \<Rightarrow> hashState" where
  "addState (a, b, c, d, e, f, g, h) (a', b', c', d', e', f', g', h') =
     (a + a', b + b', c + c', d + d', e + e', f + f', g + g', h + h')"

definition compress :: "hashState \<Rightarrow> string \<Rightarrow> hashState" where
  "compress hs block =
     addState hs (foldl sha256Round hs (zip roundConstants (schedule 48 (wordsOf block))))"

definition wordBytes :: "word32 \<Rightarrow> string" where
  "wordBytes w = map (\<lambda>i. byteOf (unat (drop_bit i w))) [24, 16, 8, 0]"

fun stateBytes :: "hashState \<Rightarrow> string" where
  "stateBytes (a, b, c, d, e, f, g, h) =
     wordBytes a @ wordBytes b @ wordBytes c @ wordBytes d
       @ wordBytes e @ wordBytes f @ wordBytes g @ wordBytes h"

definition sha256 :: "string \<Rightarrow> string" where
  "sha256 m = stateBytes (foldl compress initialHash (blocksOf (sha256Pad m)))"

definition hexDigit :: "nat \<Rightarrow> char" where
  "hexDigit n = ''0123456789abcdef'' ! (n mod 16)"

definition hexEncode :: "string \<Rightarrow> string" where
  "hexEncode bs = concat (map (\<lambda>c. [hexDigit (of_char c div 16), hexDigit (of_char c)]) bs)"

definition xorByte :: "nat \<Rightarrow> char \<Rightarrow> char" where
  "xorByte k c = byteOf (of_char c XOR k)"

definition hmacSha256 :: "string \<Rightarrow> string \<Rightarrow> string" where
  "hmacSha256 key msg =
     (let k0 = (if length key > 64 then sha256 key else key);
          k = k0 @ replicate (64 - length k0) (byteOf 0)
      in sha256 (map (xorByte 92) k @ sha256 (map (xorByte 54) k @ msg)))"

definition sha256Hex :: "string \<Rightarrow> string" where
  "sha256Hex m = hexEncode (sha256 m)"

definition hmacSha256Hex :: "string \<Rightarrow> string \<Rightarrow> string" where
  "hmacSha256Hex key msg = hexEncode (hmacSha256 key msg)"

section \<open>Webhook identity (src/types/jobs.ts)\<close>

definition computeWebhookId :: "WebhookIdParams \<Rightarrow> string" where
  "computeWebhookId params =
     (let w = (case webhookId params of None \<Rightarrow> [] | Some x \<Rightarrow> x);
          i = (case index params of None \<Rightarrow> 0 | Some n \<Rightarrow> n)
      in sha256Hex (w @ ''|'' @ txSignature params @ ''|'' @ numberToString i))"

section \<open>Signature verification (src/infra/helius.webhook.ts)\<close>

definition lowerChar :: "char \<Rightarrow> char" where
  "lowerChar c =
     (if 65 \<le> (of_char c :: nat) \<and> (of_char c :: nat) \<le> 90 then char_of (of_char c + 32 :: nat) else c)"

definition toLowerCase :: "string \<Rightarrow> string" where
  "toLowerCase s = map lowerChar s"

definition headerText :: "HeaderValue \<Rightarrow> string" where
  "headerText v = (case v of HString s \<Rightarrow> s | HNullish \<Rightarrow> [] | HOther s \<Rightarrow> s)"

fun getHeader :: "Headers \<Rightarrow> string \<Rightarrow> string option" where
  "getHeader [] name = None"
| "getHeader ((k, v) # rest) name =
     (if toLowerCase k = toLowerCase name then Some (headerText v) else getHeader rest name)"

record VerifyOptions =
  headerName :: "string option"
  secret :: "string option"

text \<open>
  The comparison loop: \<open>ok |= expected.charCodeAt(i) ^ provided.charCodeAt(i)\<close>, for every
  index of \<open>expected\<close>. It runs only when both strings have the same length.
\<close>

fun compareLoop :: "string \<Rightarrow> string \<Rightarrow> int \<Rightarrow> int" where
  "compareLoop (e # es) (p # ps) ok = compareLoop es ps (ok OR (of_char e XOR of_char p))"
| "compareLoop _ _ ok = ok"

definition verifyHeliusSignature :: "World \<Rightarrow> Headers \<Rightarrow> string \<Rightarrow> VerifyOptions \<Rightarrow> bool" where
  "verifyHeliusSignature w headers rawBody opts =
     (let name = (case headerName opts of None \<Rightarrow> ''x-helius-signature'' | Some h \<Rightarrow> h);
          sec = (case secret opts of None \<Rightarrow> heliusWebhookSecret w | Some s \<Rightarrow> Some s);
          provided = getHeader headers name
      in case sec of
           None \<Rightarrow> False
         | Some s \<Rightarrow>
             if s = [] then False
             else
               (case provided of
                  None \<Rightarrow> False
                | Some p \<Rightarrow>
                    if p = [] then False
                    else
                      let expected = hmacSha256Hex s rawBody
                      in if length expected \<noteq> length p then False
                         else compareLoop expected p 0 = 0))"

section \<open>Queues (src/queues)\<close>

definition Q_DEADLINES :: string where
  "Q_DEADLINES = ''deadlines''"

definition Q_REMINDERS :: string where
  "Q_REMINDERS = ''reminders''"

text \<open>
  \<open>getDeadlinesQueue\<close> and \<open>getRemindersQueue\<close> throw when REDIS_URL is unset or empty.
\<close>

definition getDeadlinesQueue :: "World \<Rightarrow> Error + string" where
  "getDeadlinesQueue w =
     (case redisUrl w of
        None \<Rightarrow> Inl QueueConfigError
      | Some u \<Rightarrow> if u = [] then Inl QueueConfigError else Inr Q_DEADLINES)"

definition getRemindersQueue :: "World \<Rightarrow> Error + string" where
  "getRemindersQueue w =
     (case redisUrl w of
        None \<Rightarrow> Inl QueueConfigError
      | Some u \<Rightarrow> if u = [] then Inl QueueConfigError else Inr Q_REMINDERS)"

definition scheduleDeadline :: "World \<Rightarrow> DeadlineJob \<Rightarrow> Error + Effect list" where
  "scheduleDeadline w input =
     (case assertDeadlineJob input of
        Inl e \<Rightarrow> Inl e
      | Inr payload \<Rightarrow>
          let runMs = deadlineAt payload * 1000;
              delay = max 0 (runMs - nowMs w);
              jobId = jobIdForDeadline payload
          in (case getDeadlinesQueue w of
                Inl e \<Rightarrow> Inl e
              | Inr q \<Rightarrow> Inr [QueueAdd q Q_DEADLINES (DeadlineData payload) jobId (Some delay)]))"

definition scheduleReminder :: "World \<Rightarrow> ReminderJob \<Rightarrow> Error + Effect list" where
  "scheduleReminder w input =
     (case assertReminderJob input of
        Inl e \<Rightarrow> Inl e
      | Inr payload \<Rightarrow>
          let runMs = notifyAt payload * 1000;
              delay = max 0 (runMs - nowMs w);
              jobId = jobIdForReminder payload
          in (case getRemindersQueue w of
                Inl e \<Rightarrow> Inl e
              | Inr q \<Rightarrow> Inr [QueueAdd q Q_REMINDERS (ReminderData payload) jobId (Some delay)]))"

subsection \<open>Full-plan scheduling (src/queues/scheduleEscrowJobs.ts)\<close>

record EscrowSchedule =
  escrowPubkey :: string
  deliveryAtMs :: int
  reminderMinutesBefore :: "int list"
  disputeWindowSeconds :: int

record EscrowQueues =
  deadlineQueue :: string
  reminderQueue :: string
  escalationQueue :: string

text \<open>The loop over \<open>reminderMinutesBefore\<close>; \<open>now\<close> is the one reading of the clock.\<close>

fun scheduleEscrowReminders :: "EscrowQueues \<Rightarrow> EscrowSchedule \<Rightarrow> int \<Rightarrow> int list \<Rightarrow> Effect list" where
  "scheduleEscrowReminders qs sch now [] = []"
| "scheduleEscrowReminders qs sch now (minutesBefore # rest) =
     (let offsetMs = minutesBefore * 60 * 1000;
          reminderDelay = deliveryAtMs sch - now - offsetMs
      in if reminderDelay \<le> 0 then scheduleEscrowReminders qs sch now rest
         else QueueAdd (reminderQueue qs) ''reminder''
                (EscrowReminderData (escrowPubkey sch) (deliveryAtMs sch) minutesBefore)
                (''escrow:'' @ escrowPubkey sch @ '':reminder:'' @ numberToString minutesBefore @ ''m'')
                (Some reminderDelay)
              # scheduleEscrowReminders qs sch now rest)"

definition scheduleEscrowJobs :: "World \<Rightarrow> EscrowQueues \<Rightarrow> EscrowSchedule \<Rightarrow> Effect list" where
  "scheduleEscrowJobs w qs sch =
     (let now = nowMs w
      in if deliveryAtMs sch \<le> now then []
         else
           let baseId = ''escrow:'' @ escrowPubkey sch;
               deadlineDelay = deliveryAtMs sch - now;
               escalationDelay = deadlineDelay + disputeWindowSeconds sch * 1000
           in QueueAdd (deadlineQueue qs) ''deadline''
                (EscrowDeadlineData (escrowPubkey sch) (deliveryAtMs sch))
                (baseId @ '':deadline'') (Some deadlineDelay)
              # scheduleEscrowReminders qs sch now (reminderMinutesBefore sch)
              @ [QueueAdd (escalationQueue qs) ''escalation''
                   (EscrowEscalationData (escrowPubkey sch) (deliveryAtMs sch)
                      (disputeWindowSeconds sch))
                   (baseId @ '':escalation'') (Some escalationDelay)])"

section \<open>Reminder processor (src/processors/handleReminder.ts)\<close>

definition isReminderStillUseful :: "ReminderReason \<Rightarrow> DealSnapshot \<Rightarrow> int \<Rightarrow> int \<Rightarrow> bool" where
  "isReminderStillUseful r snap nowSec notifyAt' =
     (if state snap = RESOLVED \<or> state snap = RELEASED \<or> state snap = REFUNDED then False
      else if r = deadline_upcoming
              \<and> (case deliveryBy snap of None \<Rightarrow> False | Some d \<Rightarrow> d \<le> nowSec) then False
      else if r = dispute_window_closing
              \<and> (case disputeUntil snap of None \<Rightarrow> False | Some d \<Rightarrow> d \<le> nowSec) then False
      else True)"

datatype ReminderResult =
  ReminderNoop string ReminderAudience ReminderReason
| ReminderNotified string ReminderAudience ReminderReason string

text \<open>\<open>jid\<close> is the queue's \<open>job.id\<close>, which may be absent; \<open>job\<close> is \<open>job.data\<close>.\<close>

definition handleReminder ::
  "World \<Rightarrow> string option \<Rightarrow> ReminderJob \<Rightarrow> Error + (ReminderResult \<times> Effect list)" where
  "handleReminder w jid job =
     (case assertReminderJob job of
        Inl e \<Rightarrow> Inl e
      | Inr payload \<Rightarrow>
          let expectedId = jobIdForReminder payload
          in (case getDealSnapshot w (ReminderJob.dealId payload) of
                None \<Rightarrow> Inl ApiError
              | Some snap \<Rightarrow>
                  let nowSec = nowSecOf w
                  in if \<not> isReminderStillUseful (ReminderJob.reason payload) snap nowSec
                            (notifyAt payload)
                     then Inr (ReminderNoop (ReminderJob.dealId payload) (for' payload)
                                 (ReminderJob.reason payload), [])
                     else Inr (ReminderNotified (ReminderJob.dealId payload) (for' payload)
                                 (ReminderJob.reason payload)
                                 (case jid of None \<Rightarrow> expectedId | Some i \<Rightarrow> i),
                               [SendReminder (ReminderJob.dealId payload) nowSec (for' payload)
                                  (ReminderJob.reason payload) (deliveryBy snap)
                                  (disputeUntil snap)])))"

section \<open>Escalation processor (src/processors/handleEscalation.ts)\<close>

definition tryPrepareFinalize :: "World \<Rightarrow> string \<Rightarrow> EscalationSuggestion \<Rightarrow> Prepared option" where
  "tryPrepareFinalize w deal action =
     (case prepareFinalize w deal action of
        None \<Rightarrow> None
      | Some prepared \<Rightarrow>
          Some \<lparr>approvalUrl = approvalUrl prepared, blinkUrl = blinkUrl prepared\<rparr>)"

datatype Route = review | prepared

datatype EscalationResult =
  EscalationPrepared string EscalationReason EscalationSuggestion "string option" "string option"
| EscalationReview string EscalationReason EscalationSuggestion

definition handleEscalation :: "World \<Rightarrow> EscalationJob \<Rightarrow> Error + (EscalationResult \<times> Effect list)" where
  "handleEscalation w job =
     (case assertEscalationJob job of
        Inl e \<Rightarrow> Inl e
      | Inr payload \<Rightarrow>
          let nowSec = nowSecOf w;
              deal = EscalationJob.dealId payload;
              r = EscalationJob.reason payload;
              (route, aUrl, bUrl) =
                (if suggested payload = RELEASE \<or> suggested payload = REFUND
                 then if allowsAutoFinalize w (suggested payload)
                      then (case tryPrepareFinalize w deal (suggested payload) of
                              Some pr \<Rightarrow> (prepared, approvalUrl pr, blinkUrl pr)
                            | None \<Rightarrow> (review, None, None))
                      else (review, None, None)
                 else (review, None, None))
          in if route = prepared
             then Inr (EscalationPrepared deal r (suggested payload) aUrl bUrl,
                       [NotifyReviewer deal r nowSec (CtxPrepared (suggested payload) aUrl bUrl),
                        NotifyParties deal ''finalize-prepared'' nowSec (suggested payload)])
             else Inr (EscalationReview deal r REVIEW,
                       [NotifyReviewer deal r nowSec (CtxSuggested REVIEW)]))"

section \<open>Webhook handler (src/http/helius.handler.ts)\<close>

record WebhookRequest =
  headers :: Headers
  rawBody :: string

record WebhookBody =
  ok :: bool
  accepted :: "nat option"
  ignored :: "nat option"
  reason :: "string option"

record WebhookResponse =
  statusCode :: nat
  body :: WebhookBody

definition REMINDER_BEFORE_DELIVERY_SEC :: int where
  "REMINDER_BEFORE_DELIVERY_SEC = 24 * 60 * 60"

definition REMINDER_BEFORE_DISPUTE_SEC :: int where
  "REMINDER_BEFORE_DISPUTE_SEC = 2 * 60 * 60"

text \<open>
  The body of the \<open>try\<close> for one event. The result is what it enqueued before it finished
  or threw, and either the error it threw or which counter it incremented
  (\<open>True\<close>: accepted, \<open>False\<close>: ignored).
\<close>

definition scheduleTimers ::
  "World \<Rightarrow> int \<Rightarrow> DealSnapshot \<Rightarrow> int option \<Rightarrow> DeadlineKind \<Rightarrow> int \<Rightarrow> ReminderReason
     \<Rightarrow> Effect list \<times> (Error + bool)" where
  "scheduleTimers w nowSec snap at k before r =
     (case at of
        None \<Rightarrow> ([], Inr True)
      | Some t \<Rightarrow>
          if t > nowSec then
            (case scheduleDeadline w
                    \<lparr>DeadlineJob.dealId = snapId snap, deadlineAt = t, kind = k, nonce = 0\<rparr> of
               Inl e \<Rightarrow> ([], Inl e)
             | Inr fx1 \<Rightarrow>
                 let remindAt = t - before
                 in if remindAt > nowSec then
                      (case scheduleReminder w
                              \<lparr>ReminderJob.dealId = snapId snap, notifyAt = remindAt,
                               for' = both, reason = r\<rparr> of
                         Inl e \<Rightarrow> (fx1, Inl e)
                       | Inr fx2 \<Rightarrow> (fx1 @ fx2, Inr True))
                    else (fx1, Inr True))
          else ([], Inr True))"

definition handleEvent :: "World \<Rightarrow> int \<Rightarrow> WebhookEvent \<Rightarrow> Effect list \<times> (Error + bool)" where
  "handleEvent w nowSec e =
     (case effect e of
        deal_funded deal \<Rightarrow>
          (case getDealSnapshot w deal of
             None \<Rightarrow> ([], Inl ApiError)
           | Some snap \<Rightarrow>
               scheduleTimers w nowSec snap (deliveryBy snap) delivery
                 REMINDER_BEFORE_DELIVERY_SEC deadline_upcoming)
      | deal_delivered deal \<Rightarrow>
          (case getDealSnapshot w deal of
             None \<Rightarrow> ([], Inl ApiError)
           | Some snap \<Rightarrow>
               scheduleTimers w nowSec snap (disputeUntil snap) dispute
                 REMINDER_BEFORE_DISPUTE_SEC dispute_window_closing)
      | deal_disputed deal \<Rightarrow> ([], Inr False)
      | deal_released deal \<Rightarrow> ([], Inr False)
      | deal_refunded deal \<Rightarrow> ([], Inr False))"

text \<open>
  The loop over the events, with its counters and what was enqueued so far. A thrown error
  is caught, \<open>ignored\<close> is incremented, and the loop goes on.
\<close>

fun processEvents ::
  "World \<Rightarrow> int \<Rightarrow> WebhookEvent list \<Rightarrow> nat \<times> nat \<times> Effect list \<Rightarrow> nat \<times> nat \<times> Effect list" where
  "processEvents w nowSec [] st = st"
| "processEvents w nowSec (e # es) (acc, ign, fx) =
     (case handleEvent w nowSec e of
        (fx', Inr True) \<Rightarrow> processEvents w nowSec es (acc + 1, ign, fx @ fx')
      | (fx', Inr False) \<Rightarrow> processEvents w nowSec es (acc, ign + 1, fx @ fx')
      | (fx', Inl err) \<Rightarrow> processEvents w nowSec es (acc, ign + 1, fx @ fx'))"

definition handleHeliusWebhookRequest :: "World \<Rightarrow> WebhookRequest \<Rightarrow> WebhookResponse \<times> Effect list" where
  "handleHeliusWebhookRequest w req =
     (if \<not> verifyHeliusSignature w (headers req) (rawBody req)
             \<lparr>headerName = None, secret = None\<rparr>
      then (\<lparr>statusCode = 401,
              body = \<lparr>ok = False, accepted = None, ignored = None,
                      reason = Some ''signature verification failed''\<rparr>\<rparr>, [])
      else
        (case normalizeHeliusWebhook w (rawBody req) (headers req) of
           None \<Rightarrow>
             (\<lparr>statusCode = 400,
               body = \<lparr>ok = False, accepted = None, ignored = None,
                       reason = Some ''malformed json''\<rparr>\<rparr>, [])
         | Some events \<Rightarrow>
             if events = [] then
               (\<lparr>statusCode = 200,
                 body = \<lparr>ok = True, accepted = Some 0, ignored = Some 0, reason = None\<rparr>\<rparr>, [])
             else
               (case processEvents w (nowSecOf w) events (0, 0, []) of
                  (acc, ign, fx) \<Rightarrow>
                    (\<lparr>statusCode = 200,
                      body = \<lparr>ok = True, accepted = Some acc, ignored = Some ign,
                              reason = None\<rparr>\<rparr>, fx))))"

section \<open>Reading the effects\<close>

fun jobIds :: "Effect list \<Rightarrow> string list" where
  "jobIds [] = []"
| "jobIds (QueueAdd q n d i t # fx) = i # jobIds fx"
| "jobIds (_ # fx) = jobIds fx"

fun delays :: "Effect list \<Rightarrow> int option list" where
  "delays [] = []"
| "delays (QueueAdd q n d i t # fx) = t # delays fx"
| "delays (_ # fx) = delays fx"

fun isQueueAdd :: "Effect \<Rightarrow> bool" where
  "isQueueAdd (QueueAdd q n d i t) = True"
| "isQueueAdd _ = False"

fun isNotifyReviewer :: "Effect \<Rightarrow> bool" where
  "isNotifyReviewer (NotifyReviewer d r t c) = True"
| "isNotifyReviewer _ = False"

text \<open>
  The text that \<open>computeWebhookId\<close> hashes, in the words of the specification:
  \<open>webhookId || "|" || sig || "|" || index\<close>, missing parts being the empty string and 0.
\<close>

definition webhookIdText :: "WebhookIdParams \<Rightarrow> string" where
  "webhookIdText params =
     (case webhookId params of None \<Rightarrow> [] | Some x \<Rightarrow> x) @ ''|'' @ txSignature params @ ''|''
       @ numberToString (case index params of None \<Rightarrow> 0 | Some n \<Rightarrow> n)"

text \<open>
  The world of the processor tests (test/processors/handleDeadline.test.ts): the API port
  answers every deal with the configured snapshot under the deal's id, the policy denies
  both auto-finalize actions, REDIS_URL is set.
\<close>

definition testWorld :: "DealState \<Rightarrow> int option \<Rightarrow> int option \<Rightarrow> int \<Rightarrow> World" where
  "testWorld st dBy dUntil now =
     \<lparr>getDealSnapshot =
        (\<lambda>deal. Some \<lparr>snapId = deal, state = st, deliveryBy = dBy, disputeUntil = dUntil\<rparr>),
      prepareFinalize = (\<lambda>deal action. None),
      allowRelease = False,
      allowRefund = False,
      nowMs = now,
      redisUrl = Some ''redis://localhost:6379'',
      heliusWebhookSecret = None,
      normalizeHeliusWebhook = (\<lambda>raw hs. None)\<rparr>"

text \<open>What the handler did with one event of a batch.\<close>

definition eventAccepted :: "World \<Rightarrow> WebhookEvent \<Rightarrow> bool" where
  "eventAccepted w e \<longleftrightarrow> snd (handleEvent w (nowSecOf w) e) = Inr True"

definition eventEffects :: "World \<Rightarrow> WebhookEvent \<Rightarrow> Effect list" where
  "eventEffects w e = fst (handleEvent w (nowSecOf w) e)"

text \<open>
  A world in which the API port knows the deal D-1 only (funded, delivery due in 72 hours)
  and rejects for every other deal.
\<close>

definition failingWorld :: World where
  "failingWorld =
     (testWorld FUNDED (Some 1700259200) None 1700000000000)
       \<lparr>getDealSnapshot :=
          (\<lambda>deal. if deal = ''D-1''
                   then Some \<lparr>snapId = ''D-1'', state = FUNDED, deliveryBy = Some 1700259200,
                              disputeUntil = None\<rparr>
                   else None)\<rparr>"

section \<open>Theorems\<close>

subsection \<open>Decimal rendering and the job identities\<close>

lemma digitChar_code: "d < 10 \<Longrightarrow> of_char (digitChar d) = (48 + d :: nat)"
  unfolding digitChar_def by simp

lemma digitChar_inj: "a < 10 \<Longrightarrow> b < 10 \<Longrightarrow> digitChar a = digitChar b \<Longrightarrow> a = b"
  by (metis digitChar_code add_left_cancel)

lemma natToString_nonempty: "natToString n \<noteq> []"
  by (subst natToString.simps) simp

lemma natToString_digits: "c \<in> set (natToString n) \<Longrightarrow> 48 \<le> (of_char c :: nat) \<and> (of_char c :: nat) \<le> 57"
proof (induction n rule: natToString.induct)
  case (1 n)
  show ?case
  proof (cases "n < 10")
    case True
    with 1(2) have "c = digitChar n" by (subst (asm) natToString.simps) simp
    with True show ?thesis by (simp add: digitChar_code)
  next
    case False
    with 1(2) have "c \<in> set (natToString (n div 10)) \<or> c = digitChar (n mod 10)"
      by (subst (asm) natToString.simps) auto
    then show ?thesis
    proof
      assume "c \<in> set (natToString (n div 10))"
      with 1(1) False show ?thesis by simp
    next
      assume "c = digitChar (n mod 10)"
      then show ?thesis by (simp add: digitChar_code)
    qed
  qed
qed

lemma natToString_inj: "natToString n = natToString m \<Longrightarrow> n = m"
proof (induction n arbitrary: m rule: natToString.induct)
  case (1 n)
  show ?case
  proof (cases "n < 10")
    case True
    have m: "m < 10"
    proof (rule ccontr)
      assume "\<not> m < 10"
      then have "natToString m = natToString (m div 10) @ [digitChar (m mod 10)]"
        by (subst natToString.simps) simp
      moreover have "natToString n = [digitChar n]" using True by (subst natToString.simps) simp
      ultimately show False using 1(2) natToString_nonempty[of "m div 10"] by simp
    qed
    have "natToString n = [digitChar n]" using True by (subst natToString.simps) simp
    moreover have "natToString m = [digitChar m]" using m by (subst natToString.simps) simp
    ultimately show ?thesis using 1(2) True m digitChar_inj by simp
  next
    case False
    have n: "natToString n = natToString (n div 10) @ [digitChar (n mod 10)]"
      using False by (subst natToString.simps) simp
    have m: "\<not> m < 10"
    proof
      assume "m < 10"
      then have "natToString m = [digitChar m]" by (subst natToString.simps) simp
      with n 1(2) natToString_nonempty[of "n div 10"] show False by simp
    qed
    then have m': "natToString m = natToString (m div 10) @ [digitChar (m mod 10)]"
      by (subst natToString.simps) simp
    from n m' 1(2) have a: "natToString (n div 10) = natToString (m div 10)"
      and b: "digitChar (n mod 10) = digitChar (m mod 10)" by simp_all
    from 1(1)[OF False a] have "n div 10 = m div 10" .
    moreover from b have "n mod 10 = m mod 10" by (intro digitChar_inj) simp_all
    ultimately show ?thesis by (metis div_mult_mod_eq)
  qed
qed

text \<open>Evaluation of the rendering on numerals, by rewriting.\<close>

lemma digitChar_eval:
  "digitChar 0 = CHR ''0''" "digitChar 1 = CHR ''1''" "digitChar 2 = CHR ''2''"
  "digitChar 3 = CHR ''3''" "digitChar 4 = CHR ''4''" "digitChar 5 = CHR ''5''"
  "digitChar 6 = CHR ''6''" "digitChar 7 = CHR ''7''" "digitChar 8 = CHR ''8''"
  "digitChar 9 = CHR ''9''" "digitChar (Suc 0) = CHR ''1''"
  by code_simp+

lemma natToString_eval:
  "natToString 0 = ''0''"
  "natToString (Suc 0) = ''1''"
  "natToString (numeral k) =
     (if numeral k < (10::nat) then [digitChar (numeral k)]
      else natToString (numeral k div 10) @ [digitChar (numeral k mod 10)])"
proof -
  show "natToString 0 = ''0''" by (subst natToString.simps) (simp add: digitChar_eval)
  show "natToString (Suc 0) = ''1''" by (subst natToString.simps) (simp add: digitChar_eval)
  show "natToString (numeral k) =
     (if numeral k < (10::nat) then [digitChar (numeral k)]
      else natToString (numeral k div 10) @ [digitChar (numeral k mod 10)])"
    by (rule natToString.simps)
qed

lemma natToString_no_colon: "CHR '':'' \<notin> set (natToString n)"
  using natToString_digits[of "CHR '':''" n] by auto

lemma natToString_no_minus: "CHR ''-'' \<notin> set (natToString n)"
  using natToString_digits[of "CHR ''-''" n] by auto

lemma numberToString_no_colon: "CHR '':'' \<notin> set (numberToString i)"
  by (simp add: numberToString_def natToString_no_colon)

lemma numberToString_inj: "numberToString i = numberToString j \<Longrightarrow> i = j"
proof -
  assume eq: "numberToString i = numberToString j"
  have hd_nat: "\<And>n xs. natToString n \<noteq> CHR ''-'' # xs"
    using natToString_no_minus by (metis list.set_intros(1))
  show ?thesis
  proof (cases "i < 0")
    case True
    then have j: "j < 0" using eq hd_nat[of "nat j"] by (auto simp: numberToString_def split: if_splits dest: sym)
    with True eq have "natToString (nat (- i)) = natToString (nat (- j))"
      by (simp add: numberToString_def)
    then have "nat (- i) = nat (- j)" by (rule natToString_inj)
    with True j show ?thesis by simp
  next
    case False
    then have j: "\<not> j < 0" using eq hd_nat[of "nat i"] by (auto simp: numberToString_def split: if_splits)
    with False eq have "natToString (nat i) = natToString (nat j)"
      by (simp add: numberToString_def)
    then have "nat i = nat j" by (rule natToString_inj)
    with False j show ?thesis by simp
  qed
qed

lemma split_last_colon:
  assumes "xs @ CHR '':'' # ys = xs' @ CHR '':'' # ys'"
    and "CHR '':'' \<notin> set ys" and "CHR '':'' \<notin> set ys'"
  shows "xs = xs' \<and> ys = ys'"
proof -
  let ?P = "\<lambda>c. c \<noteq> CHR '':''"
  have r: "rev ys @ CHR '':'' # rev xs = rev ys' @ CHR '':'' # rev xs'"
    using arg_cong[OF assms(1), of rev] by simp
  have "takeWhile ?P (rev ys @ CHR '':'' # rev xs) = rev ys"
    using assms(2) by (subst takeWhile_append2) auto
  moreover have "takeWhile ?P (rev ys' @ CHR '':'' # rev xs') = rev ys'"
    using assms(3) by (subst takeWhile_append2) auto
  ultimately have "rev ys = rev ys'" using r by simp
  then have "ys = ys'" by simp
  with assms(1) show ?thesis by simp
qed

lemma DeadlineKind_str_inj: "DeadlineKind_str a = DeadlineKind_str b \<Longrightarrow> a = b"
  by (cases a; cases b) simp_all

lemma DeadlineKind_str_no_colon: "CHR '':'' \<notin> set (DeadlineKind_str a)"
  by (cases a) simp_all

lemma ReminderAudience_str_inj: "ReminderAudience_str a = ReminderAudience_str b \<Longrightarrow> a = b"
  by (cases a; cases b) simp_all

lemma ReminderAudience_str_no_colon: "CHR '':'' \<notin> set (ReminderAudience_str a)"
  by (cases a) simp_all

lemma ReminderReason_str_inj: "ReminderReason_str a = ReminderReason_str b \<Longrightarrow> a = b"
  by (cases a; cases b) simp_all

lemma ReminderReason_str_no_colon: "CHR '':'' \<notin> set (ReminderReason_str a)"
  by (cases a) simp_all

lemma EscalationReason_str_inj: "EscalationReason_str a = EscalationReason_str b \<Longrightarrow> a = b"
  by (cases a; cases b) simp_all

lemma EscalationReason_str_no_colon: "CHR '':'' \<notin> set (EscalationReason_str a)"
  by (cases a) simp_all

lemma EscalationSuggestion_str_inj: "EscalationSuggestion_str a = EscalationSuggestion_str b \<Longrightarrow> a = b"
  by (cases a; cases b) simp_all

lemma EscalationSuggestion_str_no_colon: "CHR '':'' \<notin> set (EscalationSuggestion_str a)"
  by (cases a) simp_all

lemma jobIdForDeadline_inj:
  assumes "jobIdForDeadline a = jobIdForDeadline b"
  shows "a = b"
proof -
  let ?pre = "\<lambda>j. ''deadline:'' @ DeadlineJob.dealId j @ '':'' @ numberToString (deadlineAt j) @ '':''
       @ DeadlineKind_str (kind j)"
  let ?pre2 = "\<lambda>j. ''deadline:'' @ DeadlineJob.dealId j @ '':'' @ numberToString (deadlineAt j)"
  let ?pre3 = "\<lambda>j. ''deadline:'' @ DeadlineJob.dealId j"
  have "?pre a @ CHR '':'' # numberToString (nonce a) = ?pre b @ CHR '':'' # numberToString (nonce b)"
    using assms by (simp add: jobIdForDeadline_def)
  from split_last_colon[OF this numberToString_no_colon numberToString_no_colon]
  have 1: "?pre a = ?pre b" and n: "numberToString (nonce a) = numberToString (nonce b)" by simp_all
  from 1 have "?pre2 a @ CHR '':'' # DeadlineKind_str (kind a) = ?pre2 b @ CHR '':'' # DeadlineKind_str (kind b)"
    by simp
  from split_last_colon[OF this DeadlineKind_str_no_colon DeadlineKind_str_no_colon]
  have 2: "?pre2 a = ?pre2 b" and k: "DeadlineKind_str (kind a) = DeadlineKind_str (kind b)" by simp_all
  from 2 have "?pre3 a @ CHR '':'' # numberToString (deadlineAt a) = ?pre3 b @ CHR '':'' # numberToString (deadlineAt b)"
    by simp
  from split_last_colon[OF this numberToString_no_colon numberToString_no_colon]
  have 3: "?pre3 a = ?pre3 b" and d: "numberToString (deadlineAt a) = numberToString (deadlineAt b)" by simp_all
  from 3 have "DeadlineJob.dealId a = DeadlineJob.dealId b" by simp
  moreover from d have "deadlineAt a = deadlineAt b" by (rule numberToString_inj)
  moreover from k have "kind a = kind b" by (rule DeadlineKind_str_inj)
  moreover from n have "nonce a = nonce b" by (rule numberToString_inj)
  ultimately show ?thesis by simp
qed

lemma jobIdForReminder_inj:
  assumes "jobIdForReminder a = jobIdForReminder b"
  shows "a = b"
proof -
  let ?pre = "\<lambda>j. ''reminder:'' @ ReminderJob.dealId j @ '':'' @ numberToString (notifyAt j) @ '':''
       @ ReminderAudience_str (for' j)"
  let ?pre2 = "\<lambda>j. ''reminder:'' @ ReminderJob.dealId j @ '':'' @ numberToString (notifyAt j)"
  let ?pre3 = "\<lambda>j. ''reminder:'' @ ReminderJob.dealId j"
  have "?pre a @ CHR '':'' # ReminderReason_str (ReminderJob.reason a)
      = ?pre b @ CHR '':'' # ReminderReason_str (ReminderJob.reason b)"
    using assms by (simp add: jobIdForReminder_def)
  from split_last_colon[OF this ReminderReason_str_no_colon ReminderReason_str_no_colon]
  have 1: "?pre a = ?pre b"
    and n: "ReminderReason_str (ReminderJob.reason a) = ReminderReason_str (ReminderJob.reason b)" by simp_all
  from 1 have "?pre2 a @ CHR '':'' # ReminderAudience_str (for' a) = ?pre2 b @ CHR '':'' # ReminderAudience_str (for' b)"
    by simp
  from split_last_colon[OF this ReminderAudience_str_no_colon ReminderAudience_str_no_colon]
  have 2: "?pre2 a = ?pre2 b" and k: "ReminderAudience_str (for' a) = ReminderAudience_str (for' b)" by simp_all
  from 2 have "?pre3 a @ CHR '':'' # numberToString (notifyAt a) = ?pre3 b @ CHR '':'' # numberToString (notifyAt b)"
    by simp
  from split_last_colon[OF this numberToString_no_colon numberToString_no_colon]
  have 3: "?pre3 a = ?pre3 b" and d: "numberToString (notifyAt a) = numberToString (notifyAt b)" by simp_all
  from 3 have "ReminderJob.dealId a = ReminderJob.dealId b" by simp
  moreover from d have "notifyAt a = notifyAt b" by (rule numberToString_inj)
  moreover from k have "for' a = for' b" by (rule ReminderAudience_str_inj)
  moreover from n have "ReminderJob.reason a = ReminderJob.reason b" by (rule ReminderReason_str_inj)
  ultimately show ?thesis by simp
qed

lemma jobIdForEscalation_inj:
  assumes "jobIdForEscalation a = jobIdForEscalation b"
  shows "a = b"
proof -
  let ?pre = "\<lambda>j. ''escalation:'' @ EscalationJob.dealId j @ '':'' @ EscalationReason_str (EscalationJob.reason j)"
  let ?pre2 = "\<lambda>j. ''escalation:'' @ EscalationJob.dealId j"
  have "?pre a @ CHR '':'' # EscalationSuggestion_str (suggested a)
      = ?pre b @ CHR '':'' # EscalationSuggestion_str (suggested b)"
    using assms by (simp add: jobIdForEscalation_def)
  from split_last_colon[OF this EscalationSuggestion_str_no_colon EscalationSuggestion_str_no_colon]
  have 1: "?pre a = ?pre b"
    and n: "EscalationSuggestion_str (suggested a) = EscalationSuggestion_str (suggested b)" by simp_all
  from 1 have "?pre2 a @ CHR '':'' # EscalationReason_str (EscalationJob.reason a)
     = ?pre2 b @ CHR '':'' # EscalationReason_str (EscalationJob.reason b)"
    by simp
  from split_last_colon[OF this EscalationReason_str_no_colon EscalationReason_str_no_colon]
  have 2: "?pre2 a = ?pre2 b"
    and k: "EscalationReason_str (EscalationJob.reason a) = EscalationReason_str (EscalationJob.reason b)" by simp_all
  from 2 have "EscalationJob.dealId a = EscalationJob.dealId b" by simp
  moreover from k have "EscalationJob.reason a = EscalationJob.reason b" by (rule EscalationReason_str_inj)
  moreover from n have "suggested a = suggested b" by (rule EscalationSuggestion_str_inj)
  ultimately show ?thesis by simp
qed

subsection \<open>Identities of the full-plan path\<close>

lemma jobIds_append: "jobIds (xs @ ys) = jobIds xs @ jobIds ys"
  by (induction xs rule: jobIds.induct) simp_all

lemma escrow_reminder_ids:
  "i \<in> set (jobIds (scheduleEscrowReminders qs sch now ms)) \<Longrightarrow> take 4 i = ''escr''"
  by (induction ms) (auto simp: Let_def split: if_splits)

lemma escrow_ids:
  "i \<in> set (jobIds (scheduleEscrowJobs w qs sch)) \<Longrightarrow> take 4 i = ''escr''"
  by (auto simp: scheduleEscrowJobs_def Let_def jobIds_append split: if_splits dest: escrow_reminder_ids)

subsection \<open>Delays of the full-plan path\<close>

lemma escrow_reminder_delays:
  "t \<in> set (delays (scheduleEscrowReminders qs sch now ms)) \<Longrightarrow> \<exists>d. t = Some d \<and> 0 < d"
  by (induction ms) (auto simp: Let_def split: if_splits)

lemma delays_append: "delays (xs @ ys) = delays xs @ delays ys"
  by (induction xs rule: delays.induct) simp_all

subsection \<open>Signature comparison and digest length\<close>

lemma int_xor_eq_0: "(a::int) XOR b = 0 \<longleftrightarrow> a = b"
  by (metis bit.xor_left_self xor.right_neutral)

lemma of_char_int_inj: "(of_char a :: int) = of_char b \<longleftrightarrow> a = b"
  by (metis char_of_char)

lemma compareLoop_zero:
  "length es = length ps \<Longrightarrow> compareLoop es ps acc = 0 \<longleftrightarrow> acc = 0 \<and> es = ps"
proof (induction es ps arbitrary: acc rule: list_induct2)
  case Nil
  then show ?case by simp
next
  case (Cons e es p ps)
  have "acc OR (of_char e XOR of_char p) = 0 \<longleftrightarrow> acc = 0 \<and> e = p"
    by (simp add: or_eq_0_iff int_xor_eq_0 of_char_int_inj)
  with Cons.IH [of "acc OR (of_char e XOR of_char p)"] show ?case by auto
qed

lemma wordBytes_length: "length (wordBytes x) = 4"
  by (simp add: wordBytes_def)

lemma stateBytes_length: "length (stateBytes hs) = 32"
  by (cases hs rule: stateBytes.cases) (simp add: wordBytes_length)

lemma sha256_length: "length (sha256 m) = 32"
  by (simp add: sha256_def stateBytes_length)

lemma hexEncode_length: "length (hexEncode bs) = 2 * length bs"
  by (induction bs) (simp_all add: hexEncode_def)

lemma hmacSha256Hex_length: "length (hmacSha256Hex k m) = 64"
  by (simp add: hmacSha256Hex_def hexEncode_length hmacSha256_def Let_def sha256_length)

subsection \<open>The webhook batch loop\<close>

lemma processEvents_all:
  "processEvents w (nowSecOf w) es (a, i, fx) =
     (a + length (filter (eventAccepted w) es),
      i + length (filter (\<lambda>e. \<not> eventAccepted w e) es),
      fx @ concat (map (eventEffects w) es))"
proof (induction es arbitrary: a i fx)
  case Nil
  then show ?case by simp
next
  case (Cons e es)
  obtain fx' res where h: "handleEvent w (nowSecOf w) e = (fx', res)"
    by (cases "handleEvent w (nowSecOf w) e")
  show ?case
  proof (cases res)
    case (Inl err)
    with h Cons.IH [of a "i + 1" "fx @ fx'"] show ?thesis
      by (simp add: eventAccepted_def eventEffects_def)
  next
    case (Inr b)
    with h Cons.IH [of "a + 1" i "fx @ fx'"] Cons.IH [of a "i + 1" "fx @ fx'"] show ?thesis
      by (cases b) (simp_all add: eventAccepted_def eventEffects_def)
  qed
qed

subsection \<open>The claims\<close>

text \<open>
  C1. The pure decision of the deadline processor is the decision table of the
  specification, for every kind, snapshot and clock value: delivery with state DELIVERED,
  RELEASED, REFUNDED or RESOLVED is noop, otherwise escalate (no-delivery, REVIEW) when
  now >= deliveryBy and noop when not; dispute with state RESOLVED, RELEASED or REFUNDED is
  noop, otherwise noop while now < disputeUntil, and after that escalate (deadline-expired)
  with RELEASE for FUNDED or DELIVERED and REVIEW for any other state. A snapshot without
  the timestamp counts as not elapsed.
\<close>

theorem decide_matches_table: "decide k snap now = decisionTable k snap now"
  by (cases k) (simp_all add: decide_def decisionTable_def elapsed_def split: option.splits)

text \<open>
  C3, as the specification states it: the event-derived path and the full-plan path give
  the same job identity to the same logical timer. It fails: for the deal D1 with delivery
  deadline 2000 s (2000000 ms), the event-derived path names the deadline job
  \<open>deadline:D1:2000:delivery:0\<close>, and the full-plan path enqueues
  \<open>escrow:D1:deadline\<close> and \<open>escrow:D1:escalation\<close>.
\<close>

theorem scheduling_styles_identities_counterexample:
  "jobIdForDeadline \<lparr>DeadlineJob.dealId = ''D1'', deadlineAt = 2000, kind = delivery, nonce = 0\<rparr>
     = ''deadline:D1:2000:delivery:0''
   \<and> jobIds (scheduleEscrowJobs (testWorld FUNDED (Some 2000) None 1000000)
        \<lparr>deadlineQueue = ''escrow:deadline'', reminderQueue = ''escrow:reminder'',
         escalationQueue = ''escrow:escalation''\<rparr>
        \<lparr>escrowPubkey = ''D1'', deliveryAtMs = 2000000, reminderMinutesBefore = [],
         disputeWindowSeconds = 3600\<rparr>)
     = [''escrow:D1:deadline'', ''escrow:D1:escalation'']
   \<and> jobIdForDeadline \<lparr>DeadlineJob.dealId = ''D1'', deadlineAt = 2000, kind = delivery, nonce = 0\<rparr>
     \<notin> set (jobIds (scheduleEscrowJobs (testWorld FUNDED (Some 2000) None 1000000)
        \<lparr>deadlineQueue = ''escrow:deadline'', reminderQueue = ''escrow:reminder'',
         escalationQueue = ''escrow:escalation''\<rparr>
        \<lparr>escrowPubkey = ''D1'', deliveryAtMs = 2000000, reminderMinutesBefore = [],
         disputeWindowSeconds = 3600\<rparr>))"
  by (simp add: jobIdForDeadline_def numberToString_def natToString_eval digitChar_eval
        scheduleEscrowJobs_def testWorld_def)

text \<open>
  C3, amended: the two scheduling styles use disjoint identities. No job that
  \<open>scheduleEscrowJobs\<close> enqueues (all are named \<open>escrow:<pubkey>:...\<close>) has an
  identity that \<open>jobIdForDeadline\<close>, \<open>jobIdForReminder\<close> or \<open>jobIdForEscalation\<close>
  produces, for any payload, schedule, queues and clock; so a timer scheduled through one
  path is never deduplicated against the other path.
\<close>

theorem scheduling_styles_identities_disjoint:
  "jobIdForDeadline j \<notin> set (jobIds (scheduleEscrowJobs w qs sch))
   \<and> jobIdForReminder r \<notin> set (jobIds (scheduleEscrowJobs w qs sch))
   \<and> jobIdForEscalation e \<notin> set (jobIds (scheduleEscrowJobs w qs sch))"
proof -
  have "take 4 (jobIdForDeadline j) = ''dead''" by (simp add: jobIdForDeadline_def)
  moreover have "take 4 (jobIdForReminder r) = ''remi''" by (simp add: jobIdForReminder_def)
  moreover have "take 4 (jobIdForEscalation e) = ''esca''" by (simp add: jobIdForEscalation_def)
  ultimately show ?thesis using escrow_ids by fastforce
qed

text \<open>
  C5, as the specification states it: all four identity functions are injective. For
  \<open>computeWebhookId\<close> it fails: the separator may occur in the parts, so moving
  \<open>|\<close> from the webhook id to the signature (and writing the default index out) gives
  different inputs with the same identity.
\<close>

theorem computeWebhookId_collision:
  "computeWebhookId \<lparr>webhookId = Some ''a|b'', txSignature = ''c'', index = None\<rparr>
     = computeWebhookId \<lparr>webhookId = Some ''a'', txSignature = ''b|c'', index = Some 0\<rparr>
   \<and> \<lparr>webhookId = Some ''a|b'', txSignature = ''c'', index = None\<rparr>
     \<noteq> \<lparr>webhookId = Some ''a'', txSignature = ''b|c'', index = Some 0\<rparr>"
  by (simp add: computeWebhookId_def)

text \<open>
  C5, amended: \<open>jobIdForDeadline\<close>, \<open>jobIdForReminder\<close> and \<open>jobIdForEscalation\<close> are
  deterministic and injective (two payloads have the same identity exactly when they are
  equal in every field); \<open>computeWebhookId\<close> is deterministic and depends on its input
  only through the text \<open>webhookId|txSignature|index\<close>, a missing webhook id read as the
  empty string and a missing index as 0: inputs with the same text have the same identity.
\<close>

theorem job_identities_injective:
  "(jobIdForDeadline a = jobIdForDeadline b \<longleftrightarrow> a = b)
   \<and> (jobIdForReminder c = jobIdForReminder d \<longleftrightarrow> c = d)
   \<and> (jobIdForEscalation e = jobIdForEscalation f \<longleftrightarrow> e = f)
   \<and> (webhookIdText p = webhookIdText q \<longrightarrow> computeWebhookId p = computeWebhookId q)"
  using jobIdForDeadline_inj jobIdForReminder_inj jobIdForEscalation_inj
  by (auto simp: computeWebhookId_def webhookIdText_def Let_def)

theorem job_identities_injective_witness:
  "webhookIdText \<lparr>webhookId = None, txSignature = ''5hG7'', index = None\<rparr>
     = webhookIdText \<lparr>webhookId = Some [], txSignature = ''5hG7'', index = Some 0\<rparr>
   \<and> computeWebhookId \<lparr>webhookId = None, txSignature = ''5hG7'', index = None\<rparr>
     = computeWebhookId \<lparr>webhookId = Some [], txSignature = ''5hG7'', index = Some 0\<rparr>"
proof -
  let ?p = "\<lparr>webhookId = None, txSignature = ''5hG7'', index = None\<rparr>"
  let ?q = "\<lparr>webhookId = Some [], txSignature = ''5hG7'', index = Some 0\<rparr>"
  have same: "webhookIdText ?p = webhookIdText ?q"
    by (simp add: webhookIdText_def)
  have "webhookIdText ?p = webhookIdText ?q \<longrightarrow> computeWebhookId ?p = computeWebhookId ?q"
    using job_identities_injective [where p = ?p and q = ?q] by blast
  with same show ?thesis by blast
qed

text \<open>
  C2. Whenever the deadline processor decides to escalate (valid payload, snapshot read,
  decision escalate with reason r and suggestion s0), the final suggestion s is REVIEW when
  s0 is RELEASE or REFUND and the policy gate does not allow it, and s0 otherwise; the
  processor returns escalate with r and s, enqueues exactly one job, the escalation job
  \<open>{dealId, reason, suggested}\<close> under the identity
  \<open>escalation:<dealId>:<reason>:<suggested>\<close>, and notifies the reviewer (once) if and only if
  s is REVIEW.
\<close>

theorem handleDeadline_escalation:
  assumes "DeadlineJobSchema job"
    and "getDealSnapshot w (DeadlineJob.dealId job) = Some snap"
    and "decide (kind job) snap (nowSecOf w) = Escalate r s0"
  shows "let s = (if (s0 = RELEASE \<or> s0 = REFUND) \<and> \<not> allowsAutoFinalize w s0 then REVIEW else s0);
             deal = DeadlineJob.dealId job;
             fx = QueueAdd ''escalation'' ''escalation''
                    (EscalationData \<lparr>EscalationJob.dealId = deal, reason = r, suggested = s\<rparr>)
                    (''escalation:'' @ deal @ '':'' @ EscalationReason_str r @ '':''
                       @ EscalationSuggestion_str s) None
                  # (if s = REVIEW then [NotifyReviewer deal r (nowSecOf w) (CtxKind (kind job))]
                     else [])
         in handleDeadline w job = Inr (DeadlineEscalate deal r s, fx)
            \<and> length (filter isQueueAdd fx) = 1
            \<and> (length (filter isNotifyReviewer fx) = (if s = REVIEW then 1 else 0))"
  using assms
  by (cases s0)
     (simp_all add: handleDeadline_def assertDeadlineJob_def Let_def jobIdForEscalation_def
        Q_ESCALATION_def)

theorem handleDeadline_escalation_witness:
  "DeadlineJobSchema \<lparr>DeadlineJob.dealId = ''D-42'', deadlineAt = 1699999995, kind = dispute, nonce = 2\<rparr>
   \<and> decide dispute
        \<lparr>snapId = ''D-42'', state = FUNDED, deliveryBy = None, disputeUntil = Some 1699999995\<rparr>
        1700000000 = Escalate deadline_expired RELEASE
   \<and> handleDeadline (testWorld FUNDED None (Some 1699999995) 1700000000000)
        \<lparr>DeadlineJob.dealId = ''D-42'', deadlineAt = 1699999995, kind = dispute, nonce = 2\<rparr>
     = Inr (DeadlineEscalate ''D-42'' deadline_expired REVIEW,
            [QueueAdd ''escalation'' ''escalation''
               (EscalationData \<lparr>EscalationJob.dealId = ''D-42'', reason = deadline_expired,
                                suggested = REVIEW\<rparr>)
               ''escalation:D-42:deadline-expired:REVIEW'' None,
             NotifyReviewer ''D-42'' deadline_expired 1700000000 (CtxKind dispute)])"
proof -
  let ?w = "testWorld FUNDED None (Some 1699999995) 1700000000000"
  let ?job = "\<lparr>DeadlineJob.dealId = ''D-42'', deadlineAt = 1699999995, kind = dispute, nonce = 2\<rparr>"
  let ?snap = "\<lparr>snapId = ''D-42'', state = FUNDED, deliveryBy = None, disputeUntil = Some 1699999995\<rparr>"
  have now: "nowSecOf ?w = 1700000000" by (simp add: nowSecOf_def testWorld_def)
  have a: "DeadlineJobSchema ?job" by (simp add: DeadlineJobSchema_def)
  have b: "getDealSnapshot ?w (DeadlineJob.dealId ?job) = Some ?snap" by (simp add: testWorld_def)
  have c: "decide (kind ?job) ?snap (nowSecOf ?w) = Escalate deadline_expired RELEASE"
    by (simp add: now decide_def)
  have d: "\<not> allowsAutoFinalize ?w RELEASE" by (simp add: testWorld_def)
  from handleDeadline_escalation [OF a b c] d a c show ?thesis
    by (simp add: Let_def now)
qed

text \<open>
  C6. For every valid reminder payload (and a snapshot the API port returns), the reminder
  processor returns noop and dispatches nothing exactly when the snapshot state is
  RESOLVED, RELEASED or REFUNDED, or the reason is deadline-upcoming and now >= deliveryBy,
  or the reason is dispute-window-closing and now >= disputeUntil (an absent timestamp has
  not elapsed); otherwise it calls sendReminder exactly once, with the deal id, when = now,
  the audience, the reason and the context (deliveryBy, disputeUntil) of the snapshot, and
  returns notified.
\<close>

theorem handleReminder_suppression:
  assumes "ReminderJobSchema job"
    and "getDealSnapshot w (ReminderJob.dealId job) = Some snap"
  shows "handleReminder w jid job =
     (if state snap \<in> {RESOLVED, RELEASED, REFUNDED}
         \<or> (ReminderJob.reason job = deadline_upcoming \<and> elapsed (deliveryBy snap) (nowSecOf w))
         \<or> (ReminderJob.reason job = dispute_window_closing
              \<and> elapsed (disputeUntil snap) (nowSecOf w))
      then Inr (ReminderNoop (ReminderJob.dealId job) (for' job) (ReminderJob.reason job), [])
      else Inr (ReminderNotified (ReminderJob.dealId job) (for' job) (ReminderJob.reason job)
                  (case jid of None \<Rightarrow> jobIdForReminder job | Some i \<Rightarrow> i),
                [SendReminder (ReminderJob.dealId job) (nowSecOf w) (for' job)
                   (ReminderJob.reason job) (deliveryBy snap) (disputeUntil snap)]))"
  using assms
  by (cases "ReminderJob.reason job")
     (auto simp: handleReminder_def assertReminderJob_def isReminderStillUseful_def Let_def
        elapsed_def split: option.splits)

theorem handleReminder_suppression_witness:
  "ReminderJobSchema \<lparr>ReminderJob.dealId = ''D-5'', notifyAt = 1699990000, for' = both,
                       reason = deadline_upcoming\<rparr>
   \<and> handleReminder (testWorld FUNDED (Some 1699999999) None 1700000000000) None
        \<lparr>ReminderJob.dealId = ''D-5'', notifyAt = 1699990000, for' = both,
         reason = deadline_upcoming\<rparr>
      = Inr (ReminderNoop ''D-5'' both deadline_upcoming, [])
   \<and> handleReminder (testWorld FUNDED (Some 1700003600) None 1700000000000) (Some ''job-1'')
        \<lparr>ReminderJob.dealId = ''D-5'', notifyAt = 1699990000, for' = both,
         reason = deadline_upcoming\<rparr>
      = Inr (ReminderNotified ''D-5'' both deadline_upcoming ''job-1'',
             [SendReminder ''D-5'' 1700000000 both deadline_upcoming (Some 1700003600) None])"
proof -
  let ?stale = "testWorld FUNDED (Some 1699999999) None 1700000000000"
  let ?fresh = "testWorld FUNDED (Some 1700003600) None 1700000000000"
  let ?job = "\<lparr>ReminderJob.dealId = ''D-5'', notifyAt = 1699990000, for' = both,
               reason = deadline_upcoming\<rparr>"
  have a: "ReminderJobSchema ?job" by (simp add: ReminderJobSchema_def)
  have b: "getDealSnapshot ?stale (ReminderJob.dealId ?job)
           = Some \<lparr>snapId = ''D-5'', state = FUNDED, deliveryBy = Some 1699999999, disputeUntil = None\<rparr>"
    by (simp add: testWorld_def)
  have c: "getDealSnapshot ?fresh (ReminderJob.dealId ?job)
           = Some \<lparr>snapId = ''D-5'', state = FUNDED, deliveryBy = Some 1700003600, disputeUntil = None\<rparr>"
    by (simp add: testWorld_def)
  have now: "nowSecOf ?stale = 1700000000" "nowSecOf ?fresh = 1700000000"
    by (simp_all add: nowSecOf_def testWorld_def)
  from handleReminder_suppression [OF a b, of None]
       handleReminder_suppression [OF a c, of "Some ''job-1''"] a
  show ?thesis by (simp add: now elapsed_def)
qed

text \<open>
  C8. In the escalation processor, when the suggested action is RELEASE or REFUND, the
  policy allows it and \<open>prepareFinalize\<close> throws, the error is caught: the processor
  returns (not throws) action review with suggestion REVIEW, and its only effect is one
  reviewer notification with context \<open>{suggested: "REVIEW"}\<close>.
\<close>

theorem handleEscalation_prepare_failure:
  assumes "EscalationJobSchema job"
    and "suggested job = RELEASE \<or> suggested job = REFUND"
    and "allowsAutoFinalize w (suggested job)"
    and "prepareFinalize w (EscalationJob.dealId job) (suggested job) = None"
  shows "handleEscalation w job =
     Inr (EscalationReview (EscalationJob.dealId job) (EscalationJob.reason job) REVIEW,
          [NotifyReviewer (EscalationJob.dealId job) (EscalationJob.reason job) (nowSecOf w)
             (CtxSuggested REVIEW)])"
  using assms
  by (auto simp: handleEscalation_def assertEscalationJob_def tryPrepareFinalize_def Let_def)

theorem handleEscalation_prepare_failure_witness:
  "EscalationJobSchema \<lparr>EscalationJob.dealId = ''D-42'', reason = deadline_expired, suggested = RELEASE\<rparr>
   \<and> allowsAutoFinalize ((testWorld FUNDED None None 1700000000000)\<lparr>allowRelease := True\<rparr>) RELEASE
   \<and> prepareFinalize ((testWorld FUNDED None None 1700000000000)\<lparr>allowRelease := True\<rparr>)
        ''D-42'' RELEASE = None
   \<and> handleEscalation ((testWorld FUNDED None None 1700000000000)\<lparr>allowRelease := True\<rparr>)
        \<lparr>EscalationJob.dealId = ''D-42'', reason = deadline_expired, suggested = RELEASE\<rparr>
      = Inr (EscalationReview ''D-42'' deadline_expired REVIEW,
             [NotifyReviewer ''D-42'' deadline_expired 1700000000 (CtxSuggested REVIEW)])"
proof -
  let ?w = "(testWorld FUNDED None None 1700000000000)\<lparr>allowRelease := True\<rparr>"
  let ?job = "\<lparr>EscalationJob.dealId = ''D-42'', reason = deadline_expired, suggested = RELEASE\<rparr>"
  have a: "EscalationJobSchema ?job" by (simp add: EscalationJobSchema_def)
  have b: "suggested ?job = RELEASE \<or> suggested ?job = REFUND" by simp
  have c: "allowsAutoFinalize ?w (suggested ?job)" by (simp add: testWorld_def)
  have d: "prepareFinalize ?w (EscalationJob.dealId ?job) (suggested ?job) = None"
    by (simp add: testWorld_def)
  have now: "nowSecOf ?w = 1700000000" by (simp add: nowSecOf_def testWorld_def)
  from handleEscalation_prepare_failure [OF a b c d] a c d show ?thesis
    by (simp add: now)
qed

text \<open>
  C9, as the specification states it: on every producer path, scheduling a job whose target
  time is at or before now enqueues it with delay 0. It fails on the full-plan path: with
  the delivery deadline 10 s in the past, \<open>scheduleEscrowJobs\<close> enqueues nothing.
\<close>

theorem past_deadline_floor_counterexample:
  "deliveryAtMs \<lparr>escrowPubkey = ''D1'', deliveryAtMs = 1699999990000, reminderMinutesBefore = [60],
                 disputeWindowSeconds = 3600\<rparr>
     \<le> nowMs (testWorld FUNDED None None 1700000000000)
   \<and> scheduleEscrowJobs (testWorld FUNDED None None 1700000000000)
        \<lparr>deadlineQueue = ''escrow:deadline'', reminderQueue = ''escrow:reminder'',
         escalationQueue = ''escrow:escalation''\<rparr>
        \<lparr>escrowPubkey = ''D1'', deliveryAtMs = 1699999990000, reminderMinutesBefore = [60],
         disputeWindowSeconds = 3600\<rparr>
     = []"
  by (simp add: scheduleEscrowJobs_def testWorld_def)

text \<open>
  C9, amended: \<open>scheduleDeadline\<close> and \<open>scheduleReminder\<close> enqueue a valid payload
  with delay \<open>max(0, target * 1000 - now)\<close>: delay 0 when the target time is at or before
  now (in particular when \<open>deadlineAt <= nowSec\<close>), never a negative delay.
  \<open>scheduleEscrowJobs\<close> does not floor but skips: when \<open>deliveryAtMs <= now\<close> it
  enqueues nothing, a reminder whose delay would be \<open><= 0\<close> is left out, and with a
  non-negative dispute window every job it does enqueue has a strictly positive delay.
\<close>

theorem past_deadline_floor:
  "(DeadlineJobSchema d \<and> getDeadlinesQueue w = Inr q \<longrightarrow>
      scheduleDeadline w d =
        Inr [QueueAdd q ''deadlines'' (DeadlineData d) (jobIdForDeadline d)
               (Some (if deadlineAt d * 1000 \<le> nowMs w then 0 else deadlineAt d * 1000 - nowMs w))])
   \<and> (ReminderJobSchema r \<and> getRemindersQueue w = Inr q' \<longrightarrow>
      scheduleReminder w r =
        Inr [QueueAdd q' ''reminders'' (ReminderData r) (jobIdForReminder r)
               (Some (if notifyAt r * 1000 \<le> nowMs w then 0 else notifyAt r * 1000 - nowMs w))])
   \<and> (deadlineAt d \<le> nowSecOf w \<longrightarrow> deadlineAt d * 1000 \<le> nowMs w)
   \<and> (deliveryAtMs sch \<le> nowMs w \<longrightarrow> scheduleEscrowJobs w qs sch = [])
   \<and> (0 \<le> disputeWindowSeconds sch \<longrightarrow>
        (\<forall>t \<in> set (delays (scheduleEscrowJobs w qs sch)). \<exists>ms. t = Some ms \<and> 0 < ms))"
proof (intro conjI impI)
  assume "DeadlineJobSchema d \<and> getDeadlinesQueue w = Inr q"
  then show "scheduleDeadline w d =
        Inr [QueueAdd q ''deadlines'' (DeadlineData d) (jobIdForDeadline d)
               (Some (if deadlineAt d * 1000 \<le> nowMs w then 0 else deadlineAt d * 1000 - nowMs w))]"
    by (simp add: scheduleDeadline_def assertDeadlineJob_def Let_def Q_DEADLINES_def max_def)
next
  assume "ReminderJobSchema r \<and> getRemindersQueue w = Inr q'"
  then show "scheduleReminder w r =
        Inr [QueueAdd q' ''reminders'' (ReminderData r) (jobIdForReminder r)
               (Some (if notifyAt r * 1000 \<le> nowMs w then 0 else notifyAt r * 1000 - nowMs w))]"
    by (simp add: scheduleReminder_def assertReminderJob_def Let_def Q_REMINDERS_def max_def)
next
  assume "deadlineAt d \<le> nowSecOf w"
  then show "deadlineAt d * 1000 \<le> nowMs w"
    unfolding nowSecOf_def by linarith
next
  assume "deliveryAtMs sch \<le> nowMs w"
  then show "scheduleEscrowJobs w qs sch = []"
    by (simp add: scheduleEscrowJobs_def)
next
  assume nn: "0 \<le> disputeWindowSeconds sch"
  show "\<forall>t \<in> set (delays (scheduleEscrowJobs w qs sch)). \<exists>ms. t = Some ms \<and> 0 < ms"
  proof
    fix t assume t: "t \<in> set (delays (scheduleEscrowJobs w qs sch))"
    show "\<exists>ms. t = Some ms \<and> 0 < ms"
    proof (cases "deliveryAtMs sch \<le> nowMs w")
      case True
      with t show ?thesis by (simp add: scheduleEscrowJobs_def)
    next
      case False
      with t have "t = Some (deliveryAtMs sch - nowMs w)
          \<or> t \<in> set (delays (scheduleEscrowReminders qs sch (nowMs w) (reminderMinutesBefore sch)))
          \<or> t = Some (deliveryAtMs sch - nowMs w + disputeWindowSeconds sch * 1000)"
        by (auto simp: scheduleEscrowJobs_def Let_def delays_append)
      then show ?thesis using False nn escrow_reminder_delays [of t qs sch "nowMs w" "reminderMinutesBefore sch"]
        by auto
    qed
  qed
qed

theorem past_deadline_floor_witness:
  "DeadlineJobSchema \<lparr>DeadlineJob.dealId = ''D-1'', deadlineAt = 1699999990, kind = delivery, nonce = 0\<rparr>
   \<and> deadlineAt \<lparr>DeadlineJob.dealId = ''D-1'', deadlineAt = 1699999990, kind = delivery, nonce = 0\<rparr>
        \<le> nowSecOf (testWorld FUNDED None None 1700000000000)
   \<and> scheduleDeadline (testWorld FUNDED None None 1700000000000)
        \<lparr>DeadlineJob.dealId = ''D-1'', deadlineAt = 1699999990, kind = delivery, nonce = 0\<rparr>
      = Inr [QueueAdd ''deadlines'' ''deadlines''
               (DeadlineData \<lparr>DeadlineJob.dealId = ''D-1'', deadlineAt = 1699999990,
                               kind = delivery, nonce = 0\<rparr>)
               ''deadline:D-1:1699999990:delivery:0'' (Some 0)]
   \<and> ReminderJobSchema \<lparr>ReminderJob.dealId = ''D-1'', notifyAt = 1699999990, for' = both,
                         reason = deadline_upcoming\<rparr>
   \<and> delays (case scheduleReminder (testWorld FUNDED None None 1700000000000)
        \<lparr>ReminderJob.dealId = ''D-1'', notifyAt = 1699999990, for' = both,
         reason = deadline_upcoming\<rparr> of Inl e \<Rightarrow> [] | Inr fx \<Rightarrow> fx) = [Some 0]
   \<and> delays (scheduleEscrowJobs (testWorld FUNDED None None 1700000000000)
        \<lparr>deadlineQueue = ''escrow:deadline'', reminderQueue = ''escrow:reminder'',
         escalationQueue = ''escrow:escalation''\<rparr>
        \<lparr>escrowPubkey = ''D1'', deliveryAtMs = 1700003600000, reminderMinutesBefore = [1440, 60],
         disputeWindowSeconds = 3600\<rparr>)
      = [Some 3600000, Some 7200000]"
proof -
  let ?w = "testWorld FUNDED None None 1700000000000"
  let ?d = "\<lparr>DeadlineJob.dealId = ''D-1'', deadlineAt = 1699999990, kind = delivery, nonce = 0\<rparr>"
  let ?r = "\<lparr>ReminderJob.dealId = ''D-1'', notifyAt = 1699999990, for' = both,
             reason = deadline_upcoming\<rparr>"
  let ?qs = "\<lparr>deadlineQueue = ''escrow:deadline'', reminderQueue = ''escrow:reminder'',
         escalationQueue = ''escrow:escalation''\<rparr>"
  let ?sch = "\<lparr>escrowPubkey = ''D1'', deliveryAtMs = 1700003600000, reminderMinutesBefore = [1440, 60],
         disputeWindowSeconds = 3600\<rparr>"
  have a: "DeadlineJobSchema ?d" by (simp add: DeadlineJobSchema_def)
  have b: "getDeadlinesQueue ?w = Inr ''deadlines''"
    by (simp add: getDeadlinesQueue_def testWorld_def Q_DEADLINES_def)
  have a': "ReminderJobSchema ?r" by (simp add: ReminderJobSchema_def)
  have b': "getRemindersQueue ?w = Inr ''reminders''"
    by (simp add: getRemindersQueue_def testWorld_def Q_REMINDERS_def)
  have now: "nowMs ?w = 1700000000000" "nowSecOf ?w = 1700000000"
    by (simp_all add: testWorld_def nowSecOf_def)
  have id: "jobIdForDeadline ?d = ''deadline:D-1:1699999990:delivery:0''"
    by (simp add: jobIdForDeadline_def numberToString_def natToString_eval digitChar_eval)
  have e: "delays (scheduleEscrowJobs ?w ?qs ?sch) = [Some 3600000, Some 7200000]"
    by (simp add: scheduleEscrowJobs_def now Let_def)
  note t = past_deadline_floor [of ?d ?w "''deadlines''" ?r "''reminders''" ?sch ?qs]
  from t a b have 1: "scheduleDeadline ?w ?d = Inr [QueueAdd ''deadlines'' ''deadlines'' (DeadlineData ?d)
       (jobIdForDeadline ?d) (Some 0)]"
    by (simp add: now)
  from t a' b' have 2: "delays (case scheduleReminder ?w ?r of Inl e \<Rightarrow> [] | Inr fx \<Rightarrow> fx) = [Some 0]"
    by (simp add: now)
  from 1 2 a a' e show ?thesis by (simp add: id now)
qed

text \<open>
  C10. The elapsed-deadline check reads the snapshot's timestamp only. For a valid payload
  of kind delivery, a snapshot whose state is not DELIVERED, RELEASED, REFUNDED or
  RESOLVED and that has no deliveryBy gives the decision noop at every clock value, and
  the processor returns noop with no effect; likewise for kind dispute and a snapshot that
  is not RESOLVED, RELEASED or REFUNDED and has no disputeUntil. Replacing the payload's
  deadlineAt by any other positive timestamp does not change the processor's result.
\<close>

theorem decide_reads_snapshot_only:
  assumes "DeadlineJobSchema job"
    and "getDealSnapshot w (DeadlineJob.dealId job) = Some snap"
    and "(kind job = delivery \<and> state snap \<notin> {DELIVERED, RELEASED, REFUNDED, RESOLVED}
            \<and> deliveryBy snap = None)
         \<or> (kind job = dispute \<and> state snap \<notin> {RESOLVED, RELEASED, REFUNDED}
            \<and> disputeUntil snap = None)"
  shows "decide (kind job) snap now = Noop
         \<and> handleDeadline w job = Inr (DeadlineNoop (DeadlineJob.dealId job) (kind job), [])
         \<and> (0 < t \<longrightarrow> handleDeadline w (job\<lparr>deadlineAt := t\<rparr>) = handleDeadline w job)"
  using assms
  by (auto simp: decide_def handleDeadline_def assertDeadlineJob_def DeadlineJobSchema_def Let_def)

theorem decide_reads_snapshot_only_witness:
  "DeadlineJobSchema \<lparr>DeadlineJob.dealId = ''D-7'', deadlineAt = 1, kind = delivery, nonce = 0\<rparr>
   \<and> decide delivery \<lparr>snapId = ''D-7'', state = FUNDED, deliveryBy = None, disputeUntil = None\<rparr>
        1700000000 = Noop
   \<and> handleDeadline (testWorld FUNDED None None 1700000000000)
        \<lparr>DeadlineJob.dealId = ''D-7'', deadlineAt = 1, kind = delivery, nonce = 0\<rparr>
     = Inr (DeadlineNoop ''D-7'' delivery, [])
   \<and> handleDeadline (testWorld FUNDED None None 1700000000000)
        \<lparr>DeadlineJob.dealId = ''D-7'', deadlineAt = 1699990000, kind = delivery, nonce = 0\<rparr>
     = handleDeadline (testWorld FUNDED None None 1700000000000)
        \<lparr>DeadlineJob.dealId = ''D-7'', deadlineAt = 1, kind = delivery, nonce = 0\<rparr>
   \<and> DeadlineJobSchema \<lparr>DeadlineJob.dealId = ''D-8'', deadlineAt = 1, kind = dispute, nonce = 0\<rparr>
   \<and> handleDeadline (testWorld DISPUTED (Some 5) None 1700000000000)
        \<lparr>DeadlineJob.dealId = ''D-8'', deadlineAt = 1, kind = dispute, nonce = 0\<rparr>
     = Inr (DeadlineNoop ''D-8'' dispute, [])"
proof -
  let ?w = "testWorld FUNDED None None 1700000000000"
  let ?job = "\<lparr>DeadlineJob.dealId = ''D-7'', deadlineAt = 1, kind = delivery, nonce = 0\<rparr>"
  let ?snap = "\<lparr>snapId = ''D-7'', state = FUNDED, deliveryBy = None, disputeUntil = None\<rparr>"
  let ?w' = "testWorld DISPUTED (Some 5) None 1700000000000"
  let ?job' = "\<lparr>DeadlineJob.dealId = ''D-8'', deadlineAt = 1, kind = dispute, nonce = 0\<rparr>"
  let ?snap' = "\<lparr>snapId = ''D-8'', state = DISPUTED, deliveryBy = Some 5, disputeUntil = None\<rparr>"
  have a: "DeadlineJobSchema ?job" and a': "DeadlineJobSchema ?job'"
    by (simp_all add: DeadlineJobSchema_def)
  have b: "getDealSnapshot ?w (DeadlineJob.dealId ?job) = Some ?snap"
    and b': "getDealSnapshot ?w' (DeadlineJob.dealId ?job') = Some ?snap'"
    by (simp_all add: testWorld_def)
  have c: "(kind ?job = delivery \<and> state ?snap \<notin> {DELIVERED, RELEASED, REFUNDED, RESOLVED}
            \<and> deliveryBy ?snap = None)
         \<or> (kind ?job = dispute \<and> state ?snap \<notin> {RESOLVED, RELEASED, REFUNDED}
            \<and> disputeUntil ?snap = None)" by simp
  have c': "(kind ?job' = delivery \<and> state ?snap' \<notin> {DELIVERED, RELEASED, REFUNDED, RESOLVED}
            \<and> deliveryBy ?snap' = None)
         \<or> (kind ?job' = dispute \<and> state ?snap' \<notin> {RESOLVED, RELEASED, REFUNDED}
            \<and> disputeUntil ?snap' = None)" by simp
  from decide_reads_snapshot_only [OF a b c, of 1700000000 1699990000]
       decide_reads_snapshot_only [OF a' b' c', of 1700000000 1699990000] a a'
  show ?thesis by simp
qed

text \<open>
  C4. \<open>verifyHeliusSignature\<close> returns true if and only if a secret is present (the
  option's, else the environment's; an empty secret counts as missing, as the code's
  \<open>!secret\<close> has it) and the signature header (the first header of that name, compared
  without case) is exactly the lowercase hex HMAC-SHA256 of the raw body under the secret.
  So it returns false when the secret is missing, when the header is missing, and when the
  provided text differs from the digest in length or in any character.
\<close>

theorem verifyHeliusSignature_iff:
  "verifyHeliusSignature w hs raw opts \<longleftrightarrow>
     (case (case secret opts of None \<Rightarrow> heliusWebhookSecret w | Some s \<Rightarrow> Some s) of
        None \<Rightarrow> False
      | Some s \<Rightarrow>
          s \<noteq> []
          \<and> getHeader hs (case headerName opts of None \<Rightarrow> ''x-helius-signature'' | Some h \<Rightarrow> h)
              = Some (hmacSha256Hex s raw))"
proof -
  have ne: "\<And>s. hmacSha256Hex s raw \<noteq> []"
    using hmacSha256Hex_length by (metis length_0_conv zero_neq_numeral)
  have cmp: "\<And>s p. length (hmacSha256Hex s raw) = length p \<Longrightarrow>
      compareLoop (hmacSha256Hex s raw) p 0 = 0 \<longleftrightarrow> p = hmacSha256Hex s raw"
    using compareLoop_zero by auto
  show ?thesis
    using ne cmp
    by (auto simp: verifyHeliusSignature_def Let_def split: option.splits)
qed

text \<open>
  C7. \<open>handleHeliusWebhookRequest\<close> answers 401 with no effect when the signature does
  not verify; otherwise 400 with no effect when normalization throws (malformed JSON);
  otherwise 200 with the counts: accepted is the number of events whose processing
  finished with \<open>accepted++\<close>, ignored the number of all others, and every event of the
  batch is processed, whatever the events before it did (the effects are those of all
  events, in order). An event whose processing throws is not accepted, increments ignored
  by one, and the loop continues with the remaining events.
\<close>

theorem handleHeliusWebhookRequest_responses:
  "handleHeliusWebhookRequest w req =
     (if \<not> verifyHeliusSignature w (headers req) (rawBody req) \<lparr>headerName = None, secret = None\<rparr>
      then (\<lparr>statusCode = 401,
              body = \<lparr>ok = False, accepted = None, ignored = None,
                      reason = Some ''signature verification failed''\<rparr>\<rparr>, [])
      else
        (case normalizeHeliusWebhook w (rawBody req) (headers req) of
           None \<Rightarrow>
             (\<lparr>statusCode = 400,
               body = \<lparr>ok = False, accepted = None, ignored = None,
                       reason = Some ''malformed json''\<rparr>\<rparr>, [])
         | Some evs \<Rightarrow>
             (\<lparr>statusCode = 200,
               body = \<lparr>ok = True,
                       accepted = Some (length (filter (eventAccepted w) evs)),
                       ignored = Some (length (filter (\<lambda>e. \<not> eventAccepted w e) evs)),
                       reason = None\<rparr>\<rparr>,
              concat (map (eventEffects w) evs))))
   \<and> (snd (handleEvent w (nowSecOf w) e) = Inl err \<longrightarrow>
        \<not> eventAccepted w e
        \<and> processEvents w (nowSecOf w) (e # es) (a, i, fx)
            = processEvents w (nowSecOf w) es (a, i + 1, fx @ eventEffects w e))"
proof
  show "handleHeliusWebhookRequest w req =
     (if \<not> verifyHeliusSignature w (headers req) (rawBody req) \<lparr>headerName = None, secret = None\<rparr>
      then (\<lparr>statusCode = 401,
              body = \<lparr>ok = False, accepted = None, ignored = None,
                      reason = Some ''signature verification failed''\<rparr>\<rparr>, [])
      else
        (case normalizeHeliusWebhook w (rawBody req) (headers req) of
           None \<Rightarrow>
             (\<lparr>statusCode = 400,
               body = \<lparr>ok = False, accepted = None, ignored = None,
                       reason = Some ''malformed json''\<rparr>\<rparr>, [])
         | Some evs \<Rightarrow>
             (\<lparr>statusCode = 200,
               body = \<lparr>ok = True,
                       accepted = Some (length (filter (eventAccepted w) evs)),
                       ignored = Some (length (filter (\<lambda>e. \<not> eventAccepted w e) evs)),
                       reason = None\<rparr>\<rparr>,
              concat (map (eventEffects w) evs))))"
    by (simp add: handleHeliusWebhookRequest_def processEvents_all split: option.splits)
next
  show "snd (handleEvent w (nowSecOf w) e) = Inl err \<longrightarrow>
        \<not> eventAccepted w e
        \<and> processEvents w (nowSecOf w) (e # es) (a, i, fx)
            = processEvents w (nowSecOf w) es (a, i + 1, fx @ eventEffects w e)"
    by (cases "handleEvent w (nowSecOf w) e") (simp add: eventAccepted_def eventEffects_def)
qed

theorem handleHeliusWebhookRequest_responses_witness:
  "snd (handleEvent failingWorld (nowSecOf failingWorld)
          \<lparr>evId = ''9f4390f8d30c2dd9'', evSig = ''5hG7sig-bad'', evSlot = 1, evWhen = 1700000000,
           effect = deal_funded ''D-bad''\<rparr>) = Inl ApiError
   \<and> processEvents failingWorld (nowSecOf failingWorld)
        [\<lparr>evId = ''9f4390f8d30c2dd9'', evSig = ''5hG7sig-bad'', evSlot = 1, evWhen = 1700000000,
          effect = deal_funded ''D-bad''\<rparr>,
         \<lparr>evId = ''b35439a4ac6f0948'', evSig = ''5hG7sig-one'', evSlot = 2, evWhen = 1700000000,
          effect = deal_funded ''D-1''\<rparr>] (0, 0, [])
      = (1, 1,
         [QueueAdd ''deadlines'' ''deadlines''
            (DeadlineData \<lparr>DeadlineJob.dealId = ''D-1'', deadlineAt = 1700259200, kind = delivery,
                            nonce = 0\<rparr>)
            ''deadline:D-1:1700259200:delivery:0'' (Some 259200000),
          QueueAdd ''reminders'' ''reminders''
            (ReminderData \<lparr>ReminderJob.dealId = ''D-1'', notifyAt = 1700172800, for' = both,
                            reason = deadline_upcoming\<rparr>)
            ''reminder:D-1:1700172800:both:deadline-upcoming'' (Some 172800000)])
   \<and> handleHeliusWebhookRequest failingWorld
        \<lparr>headers = [(''Content-Type'', HString ''application/json'')], rawBody = ''[]''\<rparr>
      = (\<lparr>statusCode = 401,
           body = \<lparr>ok = False, accepted = None, ignored = None,
                   reason = Some ''signature verification failed''\<rparr>\<rparr>, [])"
proof -
  let ?w = failingWorld
  let ?bad = "\<lparr>evId = ''9f4390f8d30c2dd9'', evSig = ''5hG7sig-bad'', evSlot = 1, evWhen = 1700000000,
           effect = deal_funded ''D-bad''\<rparr>"
  let ?one = "\<lparr>evId = ''b35439a4ac6f0948'', evSig = ''5hG7sig-one'', evSlot = 2, evWhen = 1700000000,
          effect = deal_funded ''D-1''\<rparr>"
  let ?req = "\<lparr>headers = [(''Content-Type'', HString ''application/json'')], rawBody = ''[]''\<rparr>"
  have now: "nowSecOf ?w = 1700000000" "nowMs ?w = 1700000000000"
    by (simp_all add: nowSecOf_def failingWorld_def testWorld_def)
  have bad: "handleEvent ?w (nowSecOf ?w) ?bad = ([], Inl ApiError)"
    by (simp add: handleEvent_def failingWorld_def testWorld_def)
  have snap: "getDealSnapshot ?w ''D-1''
      = Some \<lparr>snapId = ''D-1'', state = FUNDED, deliveryBy = Some 1700259200, disputeUntil = None\<rparr>"
    by (simp add: failingWorld_def testWorld_def)
  have redis: "redisUrl ?w = Some ''redis://localhost:6379''"
    by (simp add: failingWorld_def testWorld_def)
  have one: "handleEvent ?w (nowSecOf ?w) ?one
      = ([QueueAdd ''deadlines'' ''deadlines''
            (DeadlineData \<lparr>DeadlineJob.dealId = ''D-1'', deadlineAt = 1700259200, kind = delivery,
                            nonce = 0\<rparr>)
            ''deadline:D-1:1700259200:delivery:0'' (Some 259200000),
          QueueAdd ''reminders'' ''reminders''
            (ReminderData \<lparr>ReminderJob.dealId = ''D-1'', notifyAt = 1700172800, for' = both,
                            reason = deadline_upcoming\<rparr>)
            ''reminder:D-1:1700172800:both:deadline-upcoming'' (Some 172800000)], Inr True)"
    by (simp add: handleEvent_def snap now redis scheduleTimers_def REMINDER_BEFORE_DELIVERY_SEC_def
          scheduleDeadline_def scheduleReminder_def assertDeadlineJob_def assertReminderJob_def
          DeadlineJobSchema_def ReminderJobSchema_def getDeadlinesQueue_def getRemindersQueue_def
          Q_DEADLINES_def Q_REMINDERS_def jobIdForDeadline_def jobIdForReminder_def
          numberToString_def natToString_eval digitChar_eval Let_def)
  have noverify: "\<not> verifyHeliusSignature ?w (headers ?req) (rawBody ?req)
                     \<lparr>headerName = None, secret = None\<rparr>"
    by (simp add: verifyHeliusSignature_def failingWorld_def testWorld_def)
  note t = handleHeliusWebhookRequest_responses
             [where w = ?w and req = ?req and e = ?bad and err = ApiError and es = "[?one]"
                and a = 0 and i = 0 and fx = "[]"]
  from t bad have step: "processEvents ?w (nowSecOf ?w) [?bad, ?one] (0, 0, [])
      = processEvents ?w (nowSecOf ?w) [?one] (0, 1, [])"
    by (simp add: eventEffects_def)
  from t noverify have r401: "handleHeliusWebhookRequest ?w ?req
      = (\<lparr>statusCode = 401,
           body = \<lparr>ok = False, accepted = None, ignored = None,
                   reason = Some ''signature verification failed''\<rparr>\<rparr>, [])"
    by simp
  from step one bad r401 show ?thesis by simp
qed

end
